theory Spec2Isabelle
  imports Complex_Main "HOL-Library.Log_Nat"
begin

section \<open>Python values and failures\<close>

text \<open>
  The exceptions the modelled code (and the library calls it makes) can raise. A raise is
  the left injection of the result type \<open>error + 'a\<close>.
\<close>

datatype error =
    IndexError | KeyError | ValueError | TypeError | NameError | RuntimeError | AttributeError

text \<open>
  A Python float is an IEEE 754 double: its value is a real number, and the result of an
  arithmetic operation on floats is the exact result rounded to the nearest double, a tie
  going to the even mantissa. \<open>round_double\<close> is that rounding for results below the
  overflow threshold (the only products formed here are bounded by the length of a
  list): the unit in the last place of \<open>x\<close> is \<open>2\<close> to the power
  \<open>max \<lfloor>log\<^sub>2 \<bar>x\<bar>\<rfloor> (-1022) - 52\<close>, and \<open>x\<close> is rounded to a multiple of it. The scalars
  held in tensors (logits, losses) are idealised as real numbers.
\<close>

definition pow2 :: "int \<Rightarrow> real" where
  "pow2 k = (if 0 \<le> k then 2 ^ nat k else 1 / 2 ^ nat (- k))"

text \<open>\<open>\<lfloor>log\<^sub>2 x\<rfloor>\<close> for \<open>x > 0\<close>, from the bit length of an integer.\<close>

definition ilog2 :: "real \<Rightarrow> int" where
  "ilog2 x = (if 1 \<le> x then bitlen \<lfloor>x\<rfloor> - 1 else - bitlen (\<lceil>1 / x\<rceil> - 1))"

definition round_half_even :: "real \<Rightarrow> int" where
  "round_half_even y =
     (let f = \<lfloor>y\<rfloor>; d = y - of_int f
      in if d < 1 / 2 then f else if 1 / 2 < d then f + 1 else if even f then f else f + 1)"

definition round_double :: "real \<Rightarrow> real" where
  "round_double x =
     (if x = 0 then 0
      else let q = max (ilog2 \<bar>x\<bar>) (- 1022) - 52
           in of_int (round_half_even (x / pow2 q)) * pow2 q)"

text \<open>
  The conversion of a Python int to a float (as in \<^verbatim>\<open>int * float\<close>) and the product of two
  floats.
\<close>

definition float_of_int :: "int \<Rightarrow> real" where
  "float_of_int k = round_double (of_int k)"

definition float_mul :: "real \<Rightarrow> real \<Rightarrow> real" where
  "float_mul a b = round_double (a * b)"

text \<open>Python's \<^verbatim>\<open>int(x)\<close> on a float: truncation toward zero.\<close>

definition py_int :: "real \<Rightarrow> int" where
  "py_int x = (if 0 \<le> x then \<lfloor>x\<rfloor> else \<lceil>x\<rceil>)"

text \<open>
  Python's slice \<^verbatim>\<open>xs[i:j]\<close>: a negative bound counts from the end, and every bound is
  clamped to the list.
\<close>

definition py_bound :: "nat \<Rightarrow> int \<Rightarrow> nat" where
  "py_bound n k = (if k < 0 then nat (max (k + int n) 0) else min (nat k) n)"

definition py_slice :: "'a list \<Rightarrow> int \<Rightarrow> int \<Rightarrow> 'a list" where
  "py_slice xs i j =
     (let a = py_bound (length xs) i; b = py_bound (length xs) j
      in take (b - a) (drop a xs))"

text \<open>
  A list comprehension whose element expression can raise: the first failure is the
  result.
\<close>

fun traverse :: "('a \<Rightarrow> error + 'b) \<Rightarrow> 'a list \<Rightarrow> error + 'b list" where
  "traverse f [] = Inr []"
| "traverse f (x # xs) =
     (case f x of
        Inl e \<Rightarrow> Inl e
      | Inr y \<Rightarrow> (case traverse f xs of Inl e \<Rightarrow> Inl e | Inr ys \<Rightarrow> Inr (y # ys)))"

text \<open>A dictionary lookup \<^verbatim>\<open>d[k]\<close>: KeyError when the key is missing.\<close>

definition getitem :: "('k \<rightharpoonup> 'v) \<Rightarrow> 'k \<Rightarrow> error + 'v" where
  "getitem d k = (case d k of None \<Rightarrow> Inl KeyError | Some v \<Rightarrow> Inr v)"

section \<open>Tensors\<close>

text \<open>
  Inside the modelled functions a tensor of known rank is a nested list, outermost
  dimension first; it is rectangular, and a batch has at least one row (a nested list
  with no rows carries no inner dimensions). Where a tensor is handed to a library
  function that accepts several ranks, it is tagged with its rank. Vectors that are
  added or multiplied entry by entry have the same width \<open>d_model\<close> in every model the
  constructor builds; the shape error for unequal widths is not represented.
\<close>

datatype 'a tensor = T1 "'a list" | T2 "'a list list" | T3 "'a list list list"

definition shape2 :: "nat \<Rightarrow> nat \<Rightarrow> 'a list list \<Rightarrow> bool" where
  "shape2 n c t = (length t = n \<and> (\<forall>r \<in> set t. length r = c))"

definition shape3 :: "nat \<Rightarrow> nat \<Rightarrow> nat \<Rightarrow> 'a list list list \<Rightarrow> bool" where
  "shape3 n l c t = (length t = n \<and> (\<forall>m \<in> set t. shape2 l c m))"

text \<open>
  \<^verbatim>\<open>t.transpose(1, 0)\<close> (equally \<^verbatim>\<open>t.transpose(0, 1)\<close>): the first two dimensions
  change places; entry \<open>j, i\<close> of the result is entry \<open>i, j\<close> of \<open>t\<close>.
\<close>

definition swap01 :: "'a list list \<Rightarrow> 'a list list" where
  "swap01 t =
     (case t of
        [] \<Rightarrow> []
      | r # _ \<Rightarrow> map (\<lambda>j. map (\<lambda>row. row ! j) t) [0..<length r])"

text \<open>\<^verbatim>\<open>t.transpose(1, 2)\<close> on a tensor of rank 3: the last two dimensions change places.\<close>

definition swap12 :: "'a list list list \<Rightarrow> 'a list list list" where
  "swap12 t = map swap01 t"

text \<open>
  \<^verbatim>\<open>t.squeeze(1)\<close> on a tensor of rank 2: dimension 1 is removed when its size is 1, and
  the tensor is returned as it is otherwise.
\<close>

definition squeeze1 :: "'a list list \<Rightarrow> 'a tensor" where
  "squeeze1 t = (if \<forall>r \<in> set t. length r = 1 then T1 (map hd t) else T2 t)"

text \<open>
  \<^verbatim>\<open>t.long()\<close>: the cast to 64-bit integers, truncating toward zero (the identity on
  values that are integers already).
\<close>

definition long :: "real list list \<Rightarrow> int list list" where
  "long t = map (map py_int) t"

text \<open>
  \<^verbatim>\<open>nn.Embedding\<close>: a table with one row per index; an index outside the table
  raises IndexError. Applied to a matrix of indices it yields a tensor of rank 3.
\<close>

definition embedding_row :: "real list list \<Rightarrow> int \<Rightarrow> error + real list" where
  "embedding_row table i =
     (if 0 \<le> i \<and> i < int (length table) then Inr (table ! nat i) else Inl IndexError)"

definition Embedding :: "real list list \<Rightarrow> int list list \<Rightarrow> error + real list list list" where
  "Embedding table x = traverse (traverse (embedding_row table)) x"

text \<open>\<^verbatim>\<open>torch.arange(n).repeat(k, 1)\<close>: \<open>k\<close> rows, each \<open>0, ..., n - 1\<close>.\<close>

definition arange_repeat :: "nat \<Rightarrow> nat \<Rightarrow> int list list" where
  "arange_repeat n k = replicate k (map int [0..<n])"

text \<open>
  The in-place addition \<^verbatim>\<open>a += b\<close> of two tensors of rank 3 that agree in the first and
  in the last dimension (both come from embedding tables of the same width, looked up for
  the same number of rows). \<open>b\<close> is broadcast to the shape of \<open>a\<close>: in dimension 1 it
  must have the size of \<open>a\<close>, or size 1; anything else is a shape error.
\<close>

definition iadd_rows :: "real list list \<Rightarrow> real list list \<Rightarrow> error + real list list" where
  "iadd_rows a b =
     (if length b = length a then Inr (map2 (map2 (+)) a b)
      else if length b = 1 then Inr (map (\<lambda>v. map2 (+) v (hd b)) a)
      else Inl RuntimeError)"

definition iadd :: "real list list list \<Rightarrow> real list list list \<Rightarrow> error + real list list list" where
  "iadd a b = traverse (\<lambda>(x, y). iadd_rows x y) (zip a b)"

text \<open>
  \<^verbatim>\<open>nn.Linear(in_features, out_features)\<close>: a weight matrix with one row per output and
  a bias; applied to the last dimension of its input, \<open>y = W x + b\<close>.
\<close>

record Linear =
  weight :: "real list list"
  bias :: "real list"

definition Linear_apply :: "Linear \<Rightarrow> real list \<Rightarrow> real list" where
  "Linear_apply lin v = map2 (\<lambda>row b. sum_list (map2 (*) row v) + b) (weight lin) (bias lin)"

section \<open>The model: \<^verbatim>\<open>EmbeddingTransformer\<close>\<close>

text \<open>
  The transformer encoder stack is a library module; it is a field of the model, a
  function on sequence-major tensors.
\<close>

record EmbeddingTransformer =
  seq_len :: nat
  embedding :: "real list list"
  position_embedding :: "real list list"
  encoder :: "real list list list \<Rightarrow> real list list list"
  intent_feature :: Linear
  entity_feature :: Linear

text \<open>
  The first half of \<^verbatim>\<open>forward\<close>: token and position embeddings, added in place, then the
  encoder on the sequence-major transpose.
\<close>

definition encode :: "EmbeddingTransformer \<Rightarrow> int list list \<Rightarrow> error + real list list list" where
  "encode self x =
     (case Embedding (embedding self) x of
        Inl e \<Rightarrow> Inl e
      | Inr emb \<Rightarrow>
          (case Embedding (position_embedding self) (arange_repeat (seq_len self) (length x)) of
             Inl e \<Rightarrow> Inl e
           | Inr pos \<Rightarrow>
               (case iadd emb pos of
                  Inl e \<Rightarrow> Inl e
                | Inr emb' \<Rightarrow> Inr (encoder self (swap01 emb')))))"

text \<open>
  The second half: the intent head on \<^verbatim>\<open>feature[0, :, :]\<close> (IndexError when the
  sequence dimension is empty), the entity head on the whole feature tensor, transposed
  back to batch-major.
\<close>

definition heads ::
  "EmbeddingTransformer \<Rightarrow> real list list list \<Rightarrow> error + (real list list \<times> real list list list)" where
  "heads self feature =
     (case feature of
        [] \<Rightarrow> Inl IndexError
      | first # _ \<Rightarrow>
          Inr (map (Linear_apply (intent_feature self)) first,
               swap01 (map (map (Linear_apply (entity_feature self))) feature)))"

definition EmbeddingTransformer_forward ::
  "EmbeddingTransformer \<Rightarrow> int list list \<Rightarrow> error + (real list list \<times> real list list list)" where
  "EmbeddingTransformer_forward self x =
     (case encode self x of Inl e \<Rightarrow> Inl e | Inr feature \<Rightarrow> heads self feature)"

text \<open>
  What \<^verbatim>\<open>EmbeddingTransformer.__init__\<close> establishes for given sizes: the two embedding
  tables and the two linear heads have the sizes passed in, and the encoder keeps the
  shape of a sequence-major tensor of width \<open>d_model\<close>.
\<close>

definition constructed ::
  "nat \<Rightarrow> nat \<Rightarrow> nat \<Rightarrow> nat \<Rightarrow> nat \<Rightarrow> EmbeddingTransformer \<Rightarrow> bool" where
  "constructed vocab_size sl intent_class_num entity_class_num d_model self =
     (seq_len self = sl \<and>
      shape2 vocab_size d_model (embedding self) \<and>
      shape2 sl d_model (position_embedding self) \<and>
      (\<forall>n t. shape3 sl n d_model t \<longrightarrow> shape3 sl n d_model (encoder self t)) \<and>
      shape2 intent_class_num d_model (weight (intent_feature self)) \<and>
      length (bias (intent_feature self)) = intent_class_num \<and>
      shape2 entity_class_num d_model (weight (entity_feature self)) \<and>
      length (bias (entity_feature self)) = entity_class_num)"

text \<open>
  The vector the encoder receives for row \<open>n\<close>, position \<open>l\<close> of a batch: the token's
  embedding plus the position's.
\<close>

definition summed :: "EmbeddingTransformer \<Rightarrow> int list list \<Rightarrow> nat \<Rightarrow> nat \<Rightarrow> real list" where
  "summed self x n l =
     map2 (+) (embedding self ! nat (x ! n ! l)) (position_embedding self ! l)"

text \<open>A batch of \<open>n\<close> sequences of \<open>l\<close> token ids below \<open>vocab_size\<close>.\<close>

definition token_batch :: "nat \<Rightarrow> nat \<Rightarrow> nat \<Rightarrow> int list list \<Rightarrow> bool" where
  "token_batch vocab_size n l x =
     (shape2 n l x \<and> (\<forall>r \<in> set x. \<forall>i \<in> set r. 0 \<le> i \<and> i < int vocab_size))"

section \<open>The training module: \<^verbatim>\<open>DualIntentEntityTransformer\<close>\<close>

subsection \<open>The train/validation split\<close>

text \<open>
  \<^verbatim>\<open>torch.utils.data.Subset\<close>: a view of a dataset through a list of indices; its length
  is the number of indices.
\<close>

record 'e Subset =
  subset_dataset :: "'e list"
  subset_indices :: "nat list"

definition len_Subset :: "'e Subset \<Rightarrow> nat" where
  "len_Subset s = length (subset_indices s)"

text \<open>The running sums \<^verbatim>\<open>_accumulate(lengths)\<close>.\<close>

fun accumulate_from :: "int \<Rightarrow> int list \<Rightarrow> int list" where
  "accumulate_from acc [] = []"
| "accumulate_from acc (x # xs) = (acc + x) # accumulate_from (acc + x) xs"

definition accumulate :: "int list \<Rightarrow> int list" where
  "accumulate xs = accumulate_from 0 xs"

text \<open>
  \<^verbatim>\<open>random_split(dataset, lengths)\<close>: the lengths must add up to the dataset's length
  (ValueError otherwise); one random permutation of the indices is drawn and cut into
  consecutive slices. The draw \<^verbatim>\<open>randperm\<close> is a parameter.
\<close>

definition random_split ::
  "(nat \<Rightarrow> nat list) \<Rightarrow> 'e list \<Rightarrow> int list \<Rightarrow> error + 'e Subset list" where
  "random_split randperm ds lengths =
     (if sum_list lengths \<noteq> int (length ds) then Inl ValueError
      else
        let perm = randperm (nat (sum_list lengths))
        in Inr (map (\<lambda>(offset, len).
                      \<lparr>subset_dataset = ds,
                       subset_indices = py_slice perm (offset - len) offset\<rparr>)
                    (zip (accumulate lengths) lengths)))"

text \<open>
  \<^verbatim>\<open>DataLoader(dataset, batch_size=..., num_workers=...)\<close> with the default sequential
  sampler. The constructor rejects a batch size that is not positive and looks at nothing
  else; iterating yields the subset's examples in consecutive groups of \<open>batch_size\<close>.
\<close>

record 'e DataLoader =
  loader_dataset :: "'e Subset"
  loader_batch_size :: nat

definition new_DataLoader :: "'e Subset \<Rightarrow> int \<Rightarrow> error + 'e DataLoader" where
  "new_DataLoader s bs =
     (if bs \<le> 0 then Inl ValueError
      else Inr \<lparr>loader_dataset = s, loader_batch_size = nat bs\<rparr>)"

text \<open>
  The module's attributes: the dataset, the model, the hyperparameters copied from
  \<^verbatim>\<open>hparams\<close>, and the two subsets that \<^verbatim>\<open>prepare_data\<close> stores (absent before it has
  run). \<^verbatim>\<open>self.loss_fn\<close> is set once to \<^verbatim>\<open>nn.CrossEntropyLoss()\<close> and is the constant
  \<open>loss_fn\<close> below.
\<close>

record 'e DualIntentEntityTransformer =
  dataset :: "'e list"
  model :: EmbeddingTransformer
  train_ratio :: real
  batch_size :: int
  optimizer :: string
  lr :: real
  train_dataset :: "'e Subset option"
  val_dataset :: "'e Subset option"

definition prepare_data ::
  "(nat \<Rightarrow> nat list) \<Rightarrow> 'e DualIntentEntityTransformer \<Rightarrow>
     error + 'e DualIntentEntityTransformer" where
  "prepare_data randperm self =
     (let train_length =
            py_int (float_mul (float_of_int (int (length (dataset self)))) (train_ratio self))
      in case random_split randperm (dataset self)
                [train_length, int (length (dataset self)) - train_length] of
           Inl e \<Rightarrow> Inl e
         | Inr [tr, va] \<Rightarrow> Inr (self\<lparr>train_dataset := Some tr, val_dataset := Some va\<rparr>)
         | Inr _ \<Rightarrow> Inl ValueError)"

definition train_dataloader :: "'e DualIntentEntityTransformer \<Rightarrow> error + 'e DataLoader" where
  "train_dataloader self =
     (case train_dataset self of
        None \<Rightarrow> Inl AttributeError
      | Some s \<Rightarrow> new_DataLoader s (batch_size self))"

definition val_dataloader :: "'e DualIntentEntityTransformer \<Rightarrow> error + 'e DataLoader" where
  "val_dataloader self =
     (case val_dataset self of
        None \<Rightarrow> Inl AttributeError
      | Some s \<Rightarrow> new_DataLoader s (batch_size self))"

text \<open>
  \<^verbatim>\<open>len(loader)\<close>: the number of batches, the last one possibly short.
\<close>

definition len_DataLoader :: "'e DataLoader \<Rightarrow> nat" where
  "len_DataLoader l =
     (len_Subset (loader_dataset l) + loader_batch_size l - 1) div loader_batch_size l"

text \<open>
  The trainer of the framework asks the module for each loader and, before it runs a
  step on it, rejects a loader of length zero with a ValueError
  (\<^verbatim>\<open>Dataloader returned 0 length\<close>).
\<close>

definition has_len :: "'e DataLoader \<Rightarrow> error + bool" where
  "has_len l = (if len_DataLoader l = 0 then Inl ValueError else Inr True)"

definition reset_train_dataloader ::
  "'e DualIntentEntityTransformer \<Rightarrow> error + 'e DataLoader" where
  "reset_train_dataloader self =
     (case train_dataloader self of
        Inl e \<Rightarrow> Inl e
      | Inr l \<Rightarrow> (case has_len l of Inl e \<Rightarrow> Inl e | Inr _ \<Rightarrow> Inr l))"

definition reset_val_dataloader ::
  "'e DualIntentEntityTransformer \<Rightarrow> error + 'e DataLoader" where
  "reset_val_dataloader self =
     (case val_dataloader self of
        Inl e \<Rightarrow> Inl e
      | Inr l \<Rightarrow> (case has_len l of Inl e \<Rightarrow> Inl e | Inr _ \<Rightarrow> Inr l))"

text \<open>
  The data-loading setup as the trainer runs it before the first training epoch: the
  split, then the two loaders, each checked for its length.
\<close>

definition data_setup ::
  "(nat \<Rightarrow> nat list) \<Rightarrow> 'e DualIntentEntityTransformer \<Rightarrow>
     error + ('e DualIntentEntityTransformer \<times> 'e DataLoader \<times> 'e DataLoader)" where
  "data_setup randperm self =
     (case prepare_data randperm self of
        Inl e \<Rightarrow> Inl e
      | Inr self' \<Rightarrow>
          (case reset_train_dataloader self' of
             Inl e \<Rightarrow> Inl e
           | Inr tloader \<Rightarrow>
               (case reset_val_dataloader self' of
                  Inl e \<Rightarrow> Inl e
                | Inr vloader \<Rightarrow> Inr (self', tloader, vloader))))"

text \<open>A draw of \<^verbatim>\<open>randperm(n)\<close> is a permutation of \<open>0..<n\<close>.\<close>

definition is_randperm :: "(nat \<Rightarrow> nat list) \<Rightarrow> bool" where
  "is_randperm randperm = (\<forall>n. distinct (randperm n) \<and> set (randperm n) = {0..<n})"

subsection \<open>Optimizers\<close>

text \<open>
  \<^verbatim>\<open>configure_optimizers\<close> builds each optimizer by evaluating the text
  \<^verbatim>\<open>f"{self.optimizer}(self.parameters(), lr={self.lr})"\<close>. The namespace in which the
  text is evaluated is a parameter: it maps the configured text to what evaluating the
  formatted expression does, as a function of the parameters and the learning rate (raise,
  or return a value), and to nothing when the text denotes nothing (NameError). A value
  is an optimizer instance or some other object. The parameters are references to the
  module's parameter tensors, of an arbitrary type \<open>'p\<close>: two optimizers over the same
  list of references update the same tensors.
\<close>

record 'p Optimizer =
  opt_family :: string
  opt_params :: "'p list"
  opt_lr :: real

datatype 'p pyvalue = OptimizerInstance "'p Optimizer" | OtherValue

type_synonym 'p namespace = "string \<rightharpoonup> ('p list \<Rightarrow> real \<Rightarrow> error + 'p pyvalue)"

definition eval_call :: "'p namespace \<Rightarrow> string \<Rightarrow> 'p list \<Rightarrow> real \<Rightarrow> error + 'p pyvalue" where
  "eval_call ns name ps rate =
     (case ns name of None \<Rightarrow> Inl NameError | Some callable \<Rightarrow> callable ps rate)"

text \<open>
  The constructor of the optimizer class called \<open>name\<close>: when it returns, the result is
  an instance of that class over the parameters and the learning rate it was given.
\<close>

definition optimizer_class :: "string \<Rightarrow> ('p list \<Rightarrow> real \<Rightarrow> error + 'p pyvalue) \<Rightarrow> bool" where
  "optimizer_class name ctor =
     (\<forall>ps rate. case ctor ps rate of
        Inl e \<Rightarrow> True
      | Inr v \<Rightarrow> v = OptimizerInstance \<lparr>opt_family = name, opt_params = ps, opt_lr = rate\<rparr>)"

text \<open>
  \<^verbatim>\<open>StepLR(optimizer, step_size=1)\<close>: the scheduler's constructor raises TypeError when
  its argument is not an optimizer. The scheduler refers to its optimizer by the
  optimizer's position in the list that \<^verbatim>\<open>configure_optimizers\<close> returns.
\<close>

record StepLR =
  scheduled :: nat
  step_size :: nat

definition new_StepLR :: "'p pyvalue \<Rightarrow> nat \<Rightarrow> nat \<Rightarrow> error + StepLR" where
  "new_StepLR v position k =
     (case v of
        OptimizerInstance _ \<Rightarrow> Inr \<lparr>scheduled = position, step_size = k\<rparr>
      | OtherValue \<Rightarrow> Inl TypeError)"

definition configure_optimizers ::
  "'p namespace \<Rightarrow> 'e DualIntentEntityTransformer \<Rightarrow> 'p list \<Rightarrow>
     error + ('p pyvalue list \<times> StepLR list)" where
  "configure_optimizers ns self parameters =
     (case eval_call ns (optimizer self) parameters (lr self) of
        Inl e \<Rightarrow> Inl e
      | Inr intent_optimizer \<Rightarrow>
          (case eval_call ns (optimizer self) parameters (lr self) of
             Inl e \<Rightarrow> Inl e
           | Inr entity_optimizer \<Rightarrow>
               (case new_StepLR intent_optimizer 0 1 of
                  Inl e \<Rightarrow> Inl e
                | Inr intent_schedule \<Rightarrow>
                    (case new_StepLR entity_optimizer 1 1 of
                       Inl e \<Rightarrow> Inl e
                     | Inr entity_schedule \<Rightarrow>
                         Inr ([intent_optimizer, entity_optimizer],
                              [intent_schedule, entity_schedule])))))"

subsection \<open>Training and validation steps\<close>

text \<open>
  \<^verbatim>\<open>nn.CrossEntropyLoss()\<close>, constructed without arguments: no class is ignored beyond
  the library's default index \<open>-100\<close>, and the reduction is the mean. The computation of
  the loss is the library's; it is a parameter that takes the settings, the logits and
  the target classes and can raise.
\<close>

record CrossEntropyLoss =
  ignore_index :: int
  reduction :: string

definition new_CrossEntropyLoss :: CrossEntropyLoss where
  "new_CrossEntropyLoss = \<lparr>ignore_index = - 100, reduction = ''mean''\<rparr>"

type_synonym cross_entropy = "CrossEntropyLoss \<Rightarrow> real tensor \<Rightarrow> int tensor \<Rightarrow> error + real"

definition loss_fn :: "cross_entropy \<Rightarrow> real tensor \<Rightarrow> int tensor \<Rightarrow> error + real" where
  "loss_fn cross_entropy = cross_entropy new_CrossEntropyLoss"

text \<open>
  The accuracy function \<^verbatim>\<open>get_accuracy(targets, outputs)\<close> is the metric library's, a
  parameter as well; integer labels are handed to it as the numbers they are. It returns
  a tuple: the accuracy, the number of correct predictions and the number of targets.
\<close>

datatype accuracy = Accuracy real int int

type_synonym get_accuracy = "real tensor \<Rightarrow> real tensor \<Rightarrow> error + accuracy"

text \<open>
  What a validation step stores under a key of its output: a scalar tensor (a loss), or
  the tuple that the accuracy function returned.
\<close>

datatype entry = TensorValue real | TupleValue accuracy

text \<open>A batch: token ids \<open>[N, L]\<close>, intent labels \<open>[N, 1]\<close>, entity labels \<open>[N, L]\<close>.\<close>

type_synonym batch = "int list list \<times> int list list \<times> real list list"

definition forward ::
  "'e DualIntentEntityTransformer \<Rightarrow> int list list \<Rightarrow>
     error + (real list list \<times> real list list list)" where
  "forward self x = EmbeddingTransformer_forward (model self) x"

definition training_step ::
  "cross_entropy \<Rightarrow> 'e DualIntentEntityTransformer \<Rightarrow> batch \<Rightarrow> nat \<Rightarrow> int \<Rightarrow>
     error + (string \<rightharpoonup> real) option" where
  "training_step cross_entropy self batch batch_idx optimizer_idx =
     (case batch of (tokens, intent_idx, entity_idx) \<Rightarrow>
        (case forward self tokens of
           Inl e \<Rightarrow> Inl e
         | Inr (intent_pred, entity_pred) \<Rightarrow>
             if optimizer_idx = 0 then
               (case loss_fn cross_entropy (T2 intent_pred) (squeeze1 intent_idx) of
                  Inl e \<Rightarrow> Inl e
                | Inr intent_loss \<Rightarrow>
                    Inr (Some [''loss'' \<mapsto> intent_loss, ''intent_loss'' \<mapsto> intent_loss]))
             else if optimizer_idx = 1 then
               (case loss_fn cross_entropy (T3 (swap12 entity_pred)) (T2 (long entity_idx)) of
                  Inl e \<Rightarrow> Inl e
                | Inr entity_loss \<Rightarrow>
                    Inr (Some [''loss'' \<mapsto> entity_loss, ''entity_loss'' \<mapsto> entity_loss]))
             else Inr None))"

definition validation_step ::
  "cross_entropy \<Rightarrow> get_accuracy \<Rightarrow> 'e DualIntentEntityTransformer \<Rightarrow> batch \<Rightarrow> nat \<Rightarrow>
     error + (string \<rightharpoonup> entry)" where
  "validation_step cross_entropy get_accuracy self batch batch_idx =
     (case batch of (tokens, intent_idx, entity_idx) \<Rightarrow>
        (case forward self tokens of
           Inl e \<Rightarrow> Inl e
         | Inr (intent_pred, entity_pred) \<Rightarrow>
        (case get_accuracy (T2 (map (map real_of_int) intent_idx)) (T2 intent_pred) of
           Inl e \<Rightarrow> Inl e
         | Inr intent_acc \<Rightarrow>
        (case get_accuracy (T2 entity_idx) (T3 entity_pred) of
           Inl e \<Rightarrow> Inl e
         | Inr entity_acc \<Rightarrow>
        (case loss_fn cross_entropy (T2 intent_pred) (squeeze1 intent_idx) of
           Inl e \<Rightarrow> Inl e
         | Inr intent_loss \<Rightarrow>
        (case loss_fn cross_entropy (T3 (swap12 entity_pred)) (T2 (long entity_idx)) of
           Inl e \<Rightarrow> Inl e
         | Inr entity_loss \<Rightarrow>
             Inr [''val_intent_acc'' \<mapsto> TupleValue intent_acc,
                  ''val_entity_acc'' \<mapsto> TupleValue entity_acc,
                  ''val_intent_loss'' \<mapsto> TensorValue intent_loss,
                  ''val_entity_loss'' \<mapsto> TensorValue entity_loss,
                  ''val_loss'' \<mapsto> TensorValue (intent_loss + entity_loss)]))))))"

subsection \<open>End of a validation epoch\<close>

text \<open>
  \<^verbatim>\<open>torch.stack(xs).mean()\<close>: every element of the list must be a tensor (TypeError
  otherwise) and the list must not be empty (RuntimeError); for a list of scalar tensors
  the result is their arithmetic mean.
\<close>

definition as_tensor :: "entry \<Rightarrow> error + real" where
  "as_tensor v = (case v of TensorValue x \<Rightarrow> Inr x | TupleValue _ \<Rightarrow> Inl TypeError)"

definition stack_mean :: "entry list \<Rightarrow> error + real" where
  "stack_mean xs =
     (case traverse as_tensor xs of
        Inl e \<Rightarrow> Inl e
      | Inr ts \<Rightarrow>
          if ts = [] then Inl RuntimeError else Inr (sum_list ts / real (length ts)))"

text \<open>\<^verbatim>\<open>torch.stack([x[key] for x in outputs]).mean()\<close>.\<close>

definition mean_of :: "string \<Rightarrow> (string \<rightharpoonup> entry) list \<Rightarrow> error + real" where
  "mean_of key outputs =
     (case traverse (\<lambda>x. getitem x key) outputs of
        Inl e \<Rightarrow> Inl e
      | Inr xs \<Rightarrow> stack_mean xs)"

text \<open>
  What an end-of-epoch method returns: a dictionary of scalar tensors, one of whose
  entries, \<^verbatim>\<open>"log"\<close>, is itself a dictionary of scalar tensors, the metrics for the
  logger.
\<close>

record epoch_result =
  scalars :: "string \<rightharpoonup> real"
  logs :: "string \<rightharpoonup> real"

definition validation_epoch_end :: "(string \<rightharpoonup> entry) list \<Rightarrow> error + epoch_result" where
  "validation_epoch_end outputs =
     (case mean_of ''val_loss'' outputs of
        Inl e \<Rightarrow> Inl e
      | Inr avg_loss \<Rightarrow>
     (case mean_of ''val_intent_acc'' outputs of
        Inl e \<Rightarrow> Inl e
      | Inr avg_intent_acc \<Rightarrow>
     (case mean_of ''val_entity_acc'' outputs of
        Inl e \<Rightarrow> Inl e
      | Inr avg_entity_acc \<Rightarrow>
          Inr \<lparr>scalars = [''avg_val_loss'' \<mapsto> avg_loss],
               logs = [''val_loss'' \<mapsto> avg_loss,
                       ''intent_acc'' \<mapsto> avg_intent_acc,
                       ''entity_acc'' \<mapsto> avg_entity_acc]\<rparr>)))"

definition valdition_epoch_end :: "(string \<rightharpoonup> entry) list \<Rightarrow> error + epoch_result" where
  "valdition_epoch_end outputs =
     (case mean_of ''val_intent_loss'' outputs of
        Inl e \<Rightarrow> Inl e
      | Inr avg_intent_loss \<Rightarrow>
     (case mean_of ''val_entity_loss'' outputs of
        Inl e \<Rightarrow> Inl e
      | Inr avg_entity_loss \<Rightarrow>
          Inr \<lparr>scalars = [''val_intent_loss'' \<mapsto> avg_intent_loss,
                          ''val_entity_loss'' \<mapsto> avg_entity_loss],
               logs = [''val_intent_loss'' \<mapsto> avg_intent_loss,
                       ''val_entity_loss'' \<mapsto> avg_entity_loss]\<rparr>))"

text \<open>
  The methods of the class that take the outputs of a validation epoch, under the names
  the class gives them.
\<close>

definition epoch_end_methods ::
  "string \<rightharpoonup> ((string \<rightharpoonup> entry) list \<Rightarrow> error + epoch_result)" where
  "epoch_end_methods =
     [''validation_epoch_end'' \<mapsto> validation_epoch_end,
      ''valdition_epoch_end'' \<mapsto> valdition_epoch_end]"

text \<open>
  The end of a validation epoch as the trainer of the framework runs it: the module
  derives from \<^verbatim>\<open>pl.LightningModule\<close>, whose hook for the collected outputs of the
  validation steps is the method called \<^verbatim>\<open>validation_epoch_end\<close>; the trainer calls
  that method and sends the \<^verbatim>\<open>"log"\<close> entry of its result to the logger. A method under
  any other name is not called.
\<close>

definition logged_metrics :: "(string \<rightharpoonup> entry) list \<Rightarrow> error + (string \<rightharpoonup> real)" where
  "logged_metrics outputs =
     (case epoch_end_methods ''validation_epoch_end'' of
        None \<Rightarrow> Inr Map.empty
      | Some hook \<Rightarrow> (case hook outputs of Inl e \<Rightarrow> Inl e | Inr r \<Rightarrow> Inr (logs r)))"

text \<open>
  The validation loop: the steps over the batches of the validation loader, in order,
  numbered from 0.
\<close>

definition validation_outputs ::
  "cross_entropy \<Rightarrow> get_accuracy \<Rightarrow> 'e DualIntentEntityTransformer \<Rightarrow> batch list \<Rightarrow>
     error + (string \<rightharpoonup> entry) list" where
  "validation_outputs cross_entropy get_accuracy self batches =
     traverse (\<lambda>(batch_idx, batch). validation_step cross_entropy get_accuracy self batch batch_idx)
       (enumerate 0 batches)"

text \<open>A small concrete model, on which the functions are evaluated.\<close>

definition demo_model :: EmbeddingTransformer where
  "demo_model =
     \<lparr>seq_len = 2,
      embedding = [[1, 0], [0, 1], [1, 1]],
      position_embedding = [[0, 0], [2, 3]],
      encoder = id,
      intent_feature = \<lparr>weight = [[1, 0], [0, 1]], bias = [0, 0]\<rparr>,
      entity_feature = \<lparr>weight = [[1, 1], [1, 0], [0, 1]], bias = [1, 0, 0]\<rparr>\<rparr>"

text \<open>
  A module around the small model, one batch for it, and stand-ins for the library
  functions: a loss that tells the intent logits (rank 2) from the entity logits (rank 3),
  a constant accuracy, and a namespace with one optimizer class and two names that are
  no optimizer.
\<close>

definition demo_cross_entropy :: cross_entropy where
  "demo_cross_entropy settings logits target =
     (case logits of T1 _ \<Rightarrow> Inl ValueError | T2 _ \<Rightarrow> Inr 1 | T3 _ \<Rightarrow> Inr 2)"

definition demo_get_accuracy :: get_accuracy where
  "demo_get_accuracy targets outputs = Inr (Accuracy (1 / 2) 1 2)"

definition demo_module :: "unit DualIntentEntityTransformer" where
  "demo_module =
     \<lparr>dataset = [], model = demo_model, train_ratio = 8 / 10, batch_size = 4,
      optimizer = ''Adam'', lr = 1 / 1000, train_dataset = None, val_dataset = None\<rparr>"

definition demo_batch :: batch where
  "demo_batch = ([[0, 2], [1, 1]], [[1], [0]], [[0, 1], [2, 0]])"

definition demo_namespace :: "nat namespace" where
  "demo_namespace =
     [''Adam'' \<mapsto>
        (\<lambda>ps rate. if rate < 0 then Inl ValueError
                    else Inr (OptimizerInstance
                                \<lparr>opt_family = ''Adam'', opt_params = ps, opt_lr = rate\<rparr>)),
      ''print'' \<mapsto> (\<lambda>ps rate. Inl TypeError),
      ''list'' \<mapsto> (\<lambda>ps rate. Inr OtherValue)]"

text \<open>
  The output of the validation step on the batch above under the stand-in loss and
  accuracy; and two outputs written by hand, with scalar tensors under every key.
\<close>

definition demo_step_output :: "string \<rightharpoonup> entry" where
  "demo_step_output =
     [''val_intent_acc'' \<mapsto> TupleValue (Accuracy (1 / 2) 1 2),
      ''val_entity_acc'' \<mapsto> TupleValue (Accuracy (1 / 2) 1 2),
      ''val_intent_loss'' \<mapsto> TensorValue 1,
      ''val_entity_loss'' \<mapsto> TensorValue 2,
      ''val_loss'' \<mapsto> TensorValue (1 + 2)]"

definition demo_outputs :: "(string \<rightharpoonup> entry) list" where
  "demo_outputs =
     [[''val_intent_acc'' \<mapsto> TensorValue (1 / 2), ''val_entity_acc'' \<mapsto> TensorValue (1 / 4),
       ''val_intent_loss'' \<mapsto> TensorValue 1, ''val_entity_loss'' \<mapsto> TensorValue 2,
       ''val_loss'' \<mapsto> TensorValue 3],
      [''val_intent_acc'' \<mapsto> TensorValue 1, ''val_entity_acc'' \<mapsto> TensorValue (3 / 4),
       ''val_intent_loss'' \<mapsto> TensorValue 3, ''val_entity_loss'' \<mapsto> TensorValue 4,
       ''val_loss'' \<mapsto> TensorValue 7]]"

text \<open>
  The model of the end-to-end scenario: 50 tokens, sequences of length 10, 3 intents and
  5 entity tags (the width is kept small).
\<close>

definition scenario_model :: EmbeddingTransformer where
  "scenario_model =
     \<lparr>seq_len = 10,
      embedding = replicate 50 [1, 0],
      position_embedding = replicate 10 [0, 1],
      encoder = id,
      intent_feature = \<lparr>weight = replicate 3 [1, 1], bias = replicate 3 0\<rparr>,
      entity_feature = \<lparr>weight = replicate 5 [1, 0], bias = replicate 5 1\<rparr>\<rparr>"

section \<open>Properties of the forward pass\<close>

lemma traverse_Inr:
  "(\<And>x. x \<in> set xs \<Longrightarrow> f x = Inr (g x)) \<Longrightarrow> traverse f xs = Inr (map g xs)"
  by (induction xs) auto

lemma Embedding_ok:
  assumes "\<forall>r \<in> set x. \<forall>i \<in> set r. 0 \<le> i \<and> i < int (length table)"
  shows "Embedding table x = Inr (map (map (\<lambda>i. table ! nat i)) x)"
  unfolding Embedding_def
proof (rule traverse_Inr)
  fix r assume "r \<in> set x"
  then have "\<And>i. i \<in> set r \<Longrightarrow> embedding_row table i = Inr (table ! nat i)"
    using assms by (simp add: embedding_row_def)
  then show "traverse (embedding_row table) r = Inr (map (\<lambda>i. table ! nat i) r)"
    by (rule traverse_Inr)
qed

lemma Embedding_positions:
  "length table = s \<Longrightarrow> Embedding table (arange_repeat s n) = Inr (replicate n table)"
proof -
  assume l: "length table = s"
  have "Embedding table (arange_repeat s n) =
          Inr (map (map (\<lambda>i. table ! nat i)) (arange_repeat s n))"
    by (rule Embedding_ok) (auto simp: arange_repeat_def l)
  moreover have "map (\<lambda>i. table ! nat i) (map int [0..<s]) = table"
    using map_nth[of table] l by (simp add: comp_def)
  ultimately show ?thesis by (simp add: arange_repeat_def)
qed

lemma iadd_same_length:
  assumes "\<And>a. a \<in> set as \<Longrightarrow> length a = length b"
  shows "iadd as (replicate (length as) b) = Inr (map (\<lambda>a. map2 (map2 (+)) a b) as)"
proof -
  have z: "zip as (replicate (length as) b) = map (\<lambda>a. (a, b)) as"
    by (induction as) auto
  have "traverse (\<lambda>(x, y). iadd_rows x y) (map (\<lambda>a. (a, b)) as) =
          Inr (map (\<lambda>(x, y). map2 (map2 (+)) x y) (map (\<lambda>a. (a, b)) as))"
    by (rule traverse_Inr) (use assms in \<open>auto simp: iadd_rows_def\<close>)
  then show ?thesis
    unfolding iadd_def z by (simp add: comp_def)
qed

lemma swap01_rect:
  assumes "length t = n" "0 < n" "\<forall>r \<in> set t. length r = m"
  shows "swap01 t = map (\<lambda>j. map (\<lambda>i. t ! i ! j) [0..<n]) [0..<m]"
proof -
  obtain r rs where t: "t = r # rs" using assms(1,2) by (cases t) auto
  have rows: "map (\<lambda>row. row ! j) t = map (\<lambda>i. t ! i ! j) [0..<n]" for j
    using assms(1) by (intro nth_equalityI) auto
  have "length r = m" using assms(3) t by simp
  moreover have "swap01 t = map (\<lambda>j. map (\<lambda>row. row ! j) t) [0..<length r]"
    by (simp add: swap01_def t)
  ultimately show ?thesis by (simp add: rows)
qed


lemma encode_explicit:
  assumes c: "constructed V S IC EC D self" and b: "token_batch V N S x" and n: "0 < N"
  shows "encode self x =
           Inr (encoder self (map (\<lambda>l. map (\<lambda>n. summed self x n l) [0..<N]) [0..<S]))"
proof -
  let ?E = "embedding self" and ?P = "position_embedding self"
  have lenE: "length ?E = V" and lenP: "length ?P = S" and sl: "seq_len self = S"
    using c by (auto simp: constructed_def shape2_def)
  have lenx: "length x = N" and rowx: "\<And>r. r \<in> set x \<Longrightarrow> length r = S"
    and ids: "\<forall>r \<in> set x. \<forall>i \<in> set r. 0 \<le> i \<and> i < int (length ?E)"
    using b by (auto simp: token_batch_def shape2_def lenE)
  define emb where "emb = map (map (\<lambda>i. ?E ! nat i)) x"
  have 1: "Embedding ?E x = Inr emb"
    unfolding emb_def by (rule Embedding_ok[OF ids])
  have 2: "Embedding ?P (arange_repeat (seq_len self) (length x)) = Inr (replicate (length emb) ?P)"
    using Embedding_positions[OF lenP, of "length x"] by (simp add: sl emb_def)
  define emb' where "emb' = map (\<lambda>a. map2 (map2 (+)) a ?P) emb"
  have 3: "iadd emb (replicate (length emb) ?P) = Inr emb'"
    unfolding emb'_def by (rule iadd_same_length) (auto simp: emb_def rowx lenP)
  have len': "length emb' = N" by (simp add: emb'_def emb_def lenx)
  have row': "\<forall>r \<in> set emb'. length r = S"
    by (auto simp: emb'_def emb_def rowx lenP)
  have cell: "emb' ! i ! j = summed self x i j" if "i < N" "j < S" for i j
  proof -
    have "length (x ! i) = S" using that(1) lenx rowx by simp
    then show ?thesis
      using that by (simp add: emb'_def emb_def lenx lenP summed_def)
  qed
  have "swap01 emb' = map (\<lambda>j. map (\<lambda>i. emb' ! i ! j) [0..<N]) [0..<S]"
    by (rule swap01_rect[OF len' n row'])
  also have "\<dots> = map (\<lambda>l. map (\<lambda>n. summed self x n l) [0..<N]) [0..<S]"
    by (simp add: cell)
  finally show ?thesis
    by (simp add: encode_def 1 2 3)
qed

lemma summed_length:
  assumes c: "constructed V S IC EC D self" and b: "token_batch V N S x"
    and "n < N" "l < S"
  shows "length (summed self x n l) = D"
proof -
  have lenx: "length x = N" and rowx: "\<And>r. r \<in> set x \<Longrightarrow> length r = S"
    and ids: "\<And>r i. r \<in> set x \<Longrightarrow> i \<in> set r \<Longrightarrow> 0 \<le> i \<and> i < int V"
    using b by (auto simp: token_batch_def shape2_def)
  have xn: "x ! n \<in> set x" using assms(3) lenx by simp
  then have "x ! n ! l \<in> set (x ! n)" using rowx assms(4) by simp
  then have "0 \<le> x ! n ! l \<and> x ! n ! l < int V" by (rule ids[OF xn])
  then have "nat (x ! n ! l) < V" by linarith
  then have "length (embedding self ! nat (x ! n ! l)) = D"
    using c by (auto simp: constructed_def shape2_def)
  moreover have "length (position_embedding self ! l) = D"
    using c assms(4) by (auto simp: constructed_def shape2_def)
  ultimately show ?thesis by (simp add: summed_def)
qed

lemma encode_shape:
  assumes c: "constructed V S IC EC D self" and b: "token_batch V N S x" and n: "0 < N"
  shows "\<exists>feature. encode self x = Inr feature \<and> shape3 S N D feature"
proof -
  let ?t = "map (\<lambda>l. map (\<lambda>n. summed self x n l) [0..<N]) [0..<S]"
  have "shape3 S N D ?t"
    using summed_length[OF c b] by (auto simp: shape3_def shape2_def)
  then have "shape3 S N D (encoder self ?t)"
    using c by (auto simp: constructed_def)
  then show ?thesis using encode_explicit[OF c b n] by simp
qed

lemma Linear_apply_length:
  "shape2 k d (weight lin) \<Longrightarrow> length (bias lin) = k \<Longrightarrow> length (Linear_apply lin v) = k"
  by (simp add: Linear_apply_def shape2_def)

lemma heads_explicit:
  assumes "shape3 S N D feature" "0 < S" "0 < N"
  shows "heads self feature =
           Inr (map (Linear_apply (intent_feature self)) (feature ! 0),
                map (\<lambda>n. map (\<lambda>l. Linear_apply (entity_feature self) (feature ! l ! n)) [0..<S])
                  [0..<N])"
proof -
  let ?g = "map (map (Linear_apply (entity_feature self))) feature"
  have lf: "length feature = S" and rf: "\<And>m. m \<in> set feature \<Longrightarrow> length m = N"
    using assms(1) by (auto simp: shape3_def shape2_def)
  obtain first rest where f: "feature = first # rest"
    using lf assms(2) by (cases feature) auto
  have "swap01 ?g = map (\<lambda>j. map (\<lambda>i. ?g ! i ! j) [0..<S]) [0..<N]"
    by (rule swap01_rect) (use lf rf assms(2) in auto)
  also have "\<dots> = map (\<lambda>n. map (\<lambda>l. Linear_apply (entity_feature self) (feature ! l ! n)) [0..<S])
                  [0..<N]"
    using lf rf by simp
  finally have "swap01 ?g = map (\<lambda>n. map (\<lambda>l. Linear_apply (entity_feature self) (feature ! l ! n)) [0..<S]) [0..<N]" .
  then show ?thesis
    unfolding heads_def f[symmetric] by (simp add: f)
qed


lemma constructed_demo: "constructed 3 2 2 3 2 demo_model"
  by (simp add: constructed_def demo_model_def shape2_def)

lemma token_batch_demo: "token_batch 3 2 2 [[0, 2], [1, 1]]"
  by (simp add: token_batch_def shape2_def)

lemma forward_explicit:
  assumes "constructed vocab_size L intent_class_num entity_class_num d_model self"
    and "token_batch vocab_size N L x" and "0 < N" and "0 < L"
  shows "\<exists>feature.
           encode self x = Inr feature \<and> shape3 L N d_model feature \<and>
           EmbeddingTransformer_forward self x =
             Inr (map (Linear_apply (intent_feature self)) (feature ! 0),
                  map (\<lambda>n. map (\<lambda>l. Linear_apply (entity_feature self) (feature ! l ! n)) [0..<L])
                    [0..<N])"
proof -
  obtain feature where e: "encode self x = Inr feature" and sh: "shape3 L N d_model feature"
    using encode_shape[OF assms(1-3)] by blast
  then show ?thesis
    by (simp add: EmbeddingTransformer_forward_def heads_explicit[OF sh assms(4,3)])
qed

lemma forward_shapes:
  assumes "constructed vocab_size L intent_class_num entity_class_num d_model self"
    and "token_batch vocab_size N L x" and "0 < N" and "0 < L"
  shows "\<exists>intent entity.
           EmbeddingTransformer_forward self x = Inr (intent, entity) \<and>
           shape2 N intent_class_num intent \<and>
           shape3 N L entity_class_num entity"
proof -
  obtain feature where e: "encode self x = Inr feature" and sh: "shape3 L N d_model feature"
    using encode_shape[OF assms(1-3)] by blast
  have fwd: "EmbeddingTransformer_forward self x =
          Inr (map (Linear_apply (intent_feature self)) (feature ! 0),
               map (\<lambda>n. map (\<lambda>l. Linear_apply (entity_feature self) (feature ! l ! n)) [0..<L])
                 [0..<N])"
    by (simp add: EmbeddingTransformer_forward_def e heads_explicit[OF sh assms(4,3)])
  have li: "length (Linear_apply (intent_feature self) v) = intent_class_num" for v
    using assms(1) by (intro Linear_apply_length[of _ d_model]) (auto simp: constructed_def)
  have le: "length (Linear_apply (entity_feature self) v) = entity_class_num" for v
    using assms(1) by (intro Linear_apply_length[of _ d_model]) (auto simp: constructed_def)
  have "length (feature ! 0) = N"
    using sh assms(4) by (auto simp: shape3_def shape2_def)
  then have "shape2 N intent_class_num (map (Linear_apply (intent_feature self)) (feature ! 0))"
    by (simp add: shape2_def li)
  moreover have "shape3 N L entity_class_num
      (map (\<lambda>n. map (\<lambda>l. Linear_apply (entity_feature self) (feature ! l ! n)) [0..<L]) [0..<N])"
    by (auto simp: shape3_def shape2_def le)
  ultimately show ?thesis using fwd by blast
qed

text \<open>
  Claim C2. For a model constructed for sequences of length \<open>L\<close> and a batch of
  \<open>N \<ge> 1\<close> sequences of \<open>L \<ge> 1\<close> token ids of the vocabulary, the forward pass
  returns, the intent output has shape \<open>[N, intent_class_num]\<close> and the entity output has
  shape \<open>[N, L, entity_class_num]\<close>. The witness is the scenario with 50 tokens, length
  10, 3 intents, 5 entity tags and a batch of 4.
\<close>

theorem forward_output_shapes:
  assumes "constructed vocab_size L intent_class_num entity_class_num d_model self"
    and "token_batch vocab_size N L x" and "0 < N" and "0 < L"
  shows "\<exists>intent entity.
           EmbeddingTransformer_forward self x = Inr (intent, entity) \<and>
           shape2 N intent_class_num intent \<and>
           shape3 N L entity_class_num entity"
  using assms by (rule forward_shapes)

lemma constructed_scenario: "constructed 50 10 3 5 2 scenario_model"
  by (simp add: constructed_def scenario_model_def shape2_def)

lemma token_batch_scenario: "token_batch 50 4 10 (replicate 4 (map int [0..<10]))"
  by (auto simp: token_batch_def shape2_def)

theorem forward_output_shapes_witness:
  "\<exists>intent entity.
     EmbeddingTransformer_forward scenario_model (replicate 4 (map int [0..<10])) =
       Inr (intent, entity) \<and>
     shape2 4 3 intent \<and> shape3 4 10 5 entity"
  using forward_output_shapes[OF constructed_scenario token_batch_scenario] by simp

text \<open>
  Claim C6. Under the same conditions the forward pass is the two heads on the encoder's
  output \<open>feature\<close> (sequence-major, \<open>[L, N, d_model]\<close>): the intent output is the intent
  projection of \<open>feature[0]\<close>, one row per example, and row \<open>n\<close>, position \<open>l\<close> of the
  entity output is the entity projection of \<open>feature[l][n]\<close>, so that the entity output is
  batch-major.
\<close>

theorem heads_read_positions:
  assumes "constructed vocab_size L intent_class_num entity_class_num d_model self"
    and "token_batch vocab_size N L x" and "0 < N" and "0 < L"
  shows "\<exists>feature.
           encode self x = Inr feature \<and> shape3 L N d_model feature \<and>
           EmbeddingTransformer_forward self x =
             Inr (map (Linear_apply (intent_feature self)) (feature ! 0),
                  map (\<lambda>n. map (\<lambda>l. Linear_apply (entity_feature self) (feature ! l ! n)) [0..<L])
                    [0..<N])"
  using assms by (rule forward_explicit)

theorem heads_read_positions_witness:
  "\<exists>feature.
     encode demo_model [[0, 2], [1, 1]] = Inr feature \<and> shape3 2 2 2 feature \<and>
     EmbeddingTransformer_forward demo_model [[0, 2], [1, 1]] =
       Inr (map (Linear_apply (intent_feature demo_model)) (feature ! 0),
            map (\<lambda>n. map (\<lambda>l. Linear_apply (entity_feature demo_model) (feature ! l ! n)) [0..<2])
              [0..<2])"
  using heads_read_positions[OF constructed_demo token_batch_demo] by simp

text \<open>
  The forward pass of the small model, evaluated: on a batch of the model's length, on a
  batch of another length (the position embeddings cannot be broadcast), and on a token
  outside the vocabulary.
\<close>

lemma forward_demo:
  "EmbeddingTransformer_forward demo_model [[0, 2], [1, 1]] =
     Inr ([[1, 0], [0, 1]], [[[2, 1, 0], [8, 3, 4]], [[2, 0, 1], [7, 2, 4]]])"
  by code_simp

lemma forward_demo_wrong_length:
  "EmbeddingTransformer_forward demo_model [[0, 2, 1], [1, 1, 1]] = Inl RuntimeError"
  by code_simp

lemma forward_demo_unknown_token:
  "EmbeddingTransformer_forward demo_model [[0, 3], [1, 1]] = Inl IndexError"
  by code_simp

section \<open>Properties of the training step\<close>

lemma forward_demo_module:
  "forward demo_module [[0, 2], [1, 1]] =
     Inr ([[1, 0], [0, 1]], [[[2, 1, 0], [8, 3, 4]], [[2, 0, 1], [7, 2, 4]]])"
  by (simp add: forward_def demo_module_def forward_demo)

lemma swap12_explicit:
  assumes "shape3 N L C t" "0 < L"
  shows "swap12 t = map (\<lambda>n. map (\<lambda>c. map (\<lambda>l. t ! n ! l ! c) [0..<L]) [0..<C]) [0..<N]"
proof -
  have len: "length t = N" using assms(1) by (simp add: shape3_def)
  have ex: "swap01 (t ! n) = map (\<lambda>c. map (\<lambda>l. t ! n ! l ! c) [0..<L]) [0..<C]" if "n < N" for n
  proof (rule swap01_rect)
    have "shape2 L C (t ! n)" using assms(1) that by (simp add: shape3_def)
    then show "length (t ! n) = L" "\<forall>r \<in> set (t ! n). length r = C"
      by (simp_all add: shape2_def)
  qed (rule assms(2))
  show ?thesis
    unfolding swap12_def using len by (intro nth_equalityI) (simp_all add: ex)
qed

lemma squeeze1_column: "shape2 N 1 t \<Longrightarrow> squeeze1 t = T1 (map hd t)"
  by (simp add: squeeze1_def shape2_def)

text \<open>
  Claim C5. On a batch the model accepts, with intent labels of shape \<open>[N, 1]\<close>, the
  training step under role 0 returns as its loss (and as \<open>intent_loss\<close>) the
  cross-entropy of the intent logits against the intent labels with the dimension of
  size 1 squeezed away; under role 1 it returns as its loss (and as \<open>entity_loss\<close>) the
  cross-entropy of the entity logits with the class dimension second, \<open>[N, C, L]\<close>,
  against the entity labels cast to integers. The loss is the library's at its default
  settings (ignored index \<open>-100\<close>, so no label that occurs is masked), and each call
  returns the dictionary of one role only.
\<close>

theorem training_step_roles:
  assumes "constructed vocab_size L intent_class_num entity_class_num d_model (model self)"
    and "token_batch vocab_size N L tokens" and "0 < N" and "0 < L"
    and "shape2 N 1 intent_idx"
  shows "\<exists>intent_pred entity_pred.
           forward self tokens = Inr (intent_pred, entity_pred) \<and>
           training_step ce self (tokens, intent_idx, entity_idx) batch_idx 0 =
             (case ce \<lparr>ignore_index = - 100, reduction = ''mean''\<rparr>
                     (T2 intent_pred) (T1 (map hd intent_idx)) of
                Inl e \<Rightarrow> Inl e
              | Inr loss \<Rightarrow> Inr (Some [''loss'' \<mapsto> loss, ''intent_loss'' \<mapsto> loss])) \<and>
           training_step ce self (tokens, intent_idx, entity_idx) batch_idx 1 =
             (case ce \<lparr>ignore_index = - 100, reduction = ''mean''\<rparr>
                     (T3 (map (\<lambda>n. map (\<lambda>c. map (\<lambda>l. entity_pred ! n ! l ! c) [0..<L])
                                       [0..<entity_class_num]) [0..<N]))
                     (T2 (map (map py_int) entity_idx)) of
                Inl e \<Rightarrow> Inl e
              | Inr loss \<Rightarrow> Inr (Some [''loss'' \<mapsto> loss, ''entity_loss'' \<mapsto> loss]))"
proof -
  obtain intent_pred entity_pred where
    f: "forward self tokens = Inr (intent_pred, entity_pred)"
    and sh: "shape3 N L entity_class_num entity_pred"
    using forward_shapes[OF assms(1-4)] by (auto simp: forward_def)
  have sw: "swap12 entity_pred =
      map (\<lambda>n. map (\<lambda>c. map (\<lambda>l. entity_pred ! n ! l ! c) [0..<L]) [0..<entity_class_num]) [0..<N]"
    by (rule swap12_explicit[OF sh assms(4)])
  show ?thesis
    by (intro exI[of _ intent_pred] exI[of _ entity_pred])
      (simp add: f training_step_def loss_fn_def new_CrossEntropyLoss_def
        squeeze1_column[OF assms(5)] sw[symmetric] long_def)
qed


lemma constructed_demo_module: "constructed 3 2 2 3 2 (model demo_module)"
  by (simp add: demo_module_def constructed_demo)

theorem training_step_roles_witness:
  "training_step demo_cross_entropy demo_module demo_batch 0 0 =
     Inr (Some [''loss'' \<mapsto> 1, ''intent_loss'' \<mapsto> 1]) \<and>
   training_step demo_cross_entropy demo_module demo_batch 0 1 =
     Inr (Some [''loss'' \<mapsto> 2, ''entity_loss'' \<mapsto> 2])"
proof -
  have h: "(0 :: nat) < 2" "shape2 2 1 [[1 :: int], [0]]"
    by (simp_all add: shape2_def)
  from training_step_roles[OF constructed_demo_module token_batch_demo h(1) h(1) h(2),
      of demo_cross_entropy "[[0, 1], [2, 0]]" 0]
  show ?thesis
    by (auto simp: demo_batch_def demo_cross_entropy_def)
qed

text \<open>
  Claim C10. With an optimizer index other than 0 and 1 the training step runs the
  forward pass (whose failure, if any, is the step's) and then returns \<open>None\<close>: no loss
  is computed, no error is raised for the index, and neither role is taken.
\<close>

theorem training_step_other_index:
  assumes "optimizer_idx \<noteq> 0" and "optimizer_idx \<noteq> 1"
  shows "training_step ce self (tokens, intent_idx, entity_idx) batch_idx optimizer_idx =
           (case forward self tokens of Inl e \<Rightarrow> Inl e | Inr preds \<Rightarrow> Inr None)"
  using assms by (simp add: training_step_def split: sum.splits prod.splits)

theorem training_step_other_index_witness:
  "(2 :: int) \<noteq> 0 \<and> (2 :: int) \<noteq> 1 \<and>
   training_step demo_cross_entropy demo_module demo_batch 0 2 = Inr None"
proof -
  have h: "(2 :: int) \<noteq> 0" "(2 :: int) \<noteq> 1" by simp_all
  show ?thesis
    using training_step_other_index[OF h, of demo_cross_entropy demo_module
        "[[0, 2], [1, 1]]" "[[1], [0]]" "[[0, 1], [2, 0]]" 0]
    by (simp add: demo_batch_def forward_demo_module)
qed

section \<open>Properties of the optimizer configuration\<close>

text \<open>
  Claim C7. When the configured text denotes the constructor of an optimizer class and
  that constructor accepts the module's parameters and learning rate,
  \<^verbatim>\<open>configure_optimizers\<close> returns exactly two optimizers, both instances of that class
  with the configured learning rate and over the same list of parameter references, and
  two schedules of step size 1, the first on the first optimizer and the second on the
  second.
\<close>

theorem configure_optimizers_pair:
  assumes "ns (optimizer self) = Some ctor"
    and "optimizer_class (optimizer self) ctor"
    and "ctor parameters (lr self) = Inr v"
  shows "configure_optimizers ns self parameters =
           Inr ([OptimizerInstance
                   \<lparr>opt_family = optimizer self, opt_params = parameters, opt_lr = lr self\<rparr>,
                 OptimizerInstance
                   \<lparr>opt_family = optimizer self, opt_params = parameters, opt_lr = lr self\<rparr>],
                [\<lparr>scheduled = 0, step_size = 1\<rparr>, \<lparr>scheduled = 1, step_size = 1\<rparr>])"
proof -
  have "case ctor parameters (lr self) of
          Inl e \<Rightarrow> True
        | Inr v \<Rightarrow> v = OptimizerInstance
            \<lparr>opt_family = optimizer self, opt_params = parameters, opt_lr = lr self\<rparr>"
    using assms(2) unfolding optimizer_class_def by blast
  then have "v = OptimizerInstance
            \<lparr>opt_family = optimizer self, opt_params = parameters, opt_lr = lr self\<rparr>"
    by (simp add: assms(3))
  then show ?thesis
    using assms(1,3) by (simp add: configure_optimizers_def eval_call_def new_StepLR_def)
qed

lemma demo_Adam:
  "optimizer_class ''Adam''
     (\<lambda>ps rate. if rate < 0 then Inl ValueError
                 else Inr (OptimizerInstance
                             \<lparr>opt_family = ''Adam'', opt_params = (ps :: nat list), opt_lr = rate\<rparr>))"
  by (simp add: optimizer_class_def)

theorem configure_optimizers_pair_witness:
  "configure_optimizers demo_namespace demo_module [0, 1, 2] =
     Inr ([OptimizerInstance \<lparr>opt_family = ''Adam'', opt_params = [0, 1, 2], opt_lr = 1 / 1000\<rparr>,
           OptimizerInstance \<lparr>opt_family = ''Adam'', opt_params = [0, 1, 2], opt_lr = 1 / 1000\<rparr>],
          [\<lparr>scheduled = 0, step_size = 1\<rparr>, \<lparr>scheduled = 1, step_size = 1\<rparr>])"
proof -
  let ?ctor = "\<lambda>ps rate. if rate < 0 then Inl ValueError
                 else Inr (OptimizerInstance
                             \<lparr>opt_family = ''Adam'', opt_params = (ps :: nat list), opt_lr = rate\<rparr>)"
  have 1: "demo_namespace (optimizer demo_module) = Some ?ctor"
    by (simp add: demo_namespace_def demo_module_def)
  have 2: "optimizer_class (optimizer demo_module) ?ctor"
    using demo_Adam by (simp add: demo_module_def)
  have 3: "?ctor [0, 1, 2] (lr demo_module) =
      Inr (OptimizerInstance \<lparr>opt_family = ''Adam'', opt_params = [0, 1, 2], opt_lr = 1 / 1000\<rparr>)"
    by (simp add: demo_module_def)
  show ?thesis
    using configure_optimizers_pair[where ns = demo_namespace and self = demo_module
        and ctor = ?ctor and parameters = "[0, 1, 2]", OF 1 2 3]
    by (simp add: demo_module_def)
qed

text \<open>
  Claim C8. When the configured text does not denote a callable that returns an
  optimizer for the module's parameters and learning rate, \<^verbatim>\<open>configure_optimizers\<close>
  fails: with NameError when the text denotes nothing, with the callable's own error when
  the call raises, and with the scheduler's TypeError when the call returns something
  that is no optimizer. The function takes no batch: it fails before any training step.
\<close>

theorem configure_optimizers_unresolved:
  assumes "\<forall>ctor. ns (optimizer self) = Some ctor \<longrightarrow>
             (\<forall>opt. ctor parameters (lr self) \<noteq> Inr (OptimizerInstance opt))"
  shows "(\<exists>e. configure_optimizers ns self parameters = Inl e) \<and>
         (ns (optimizer self) = None \<longrightarrow>
            configure_optimizers ns self parameters = Inl NameError)"
proof (cases "ns (optimizer self)")
  case None
  then show ?thesis by (simp add: configure_optimizers_def eval_call_def)
next
  case (Some ctor)
  then have no: "\<forall>opt. ctor parameters (lr self) \<noteq> Inr (OptimizerInstance opt)"
    using assms by blast
  show ?thesis
  proof (cases "ctor parameters (lr self)")
    case (Inl e)
    then show ?thesis using Some by (simp add: configure_optimizers_def eval_call_def)
  next
    case (Inr v)
    then have "v = OtherValue" using no by (cases v) auto
    then show ?thesis
      using Some Inr by (simp add: configure_optimizers_def eval_call_def new_StepLR_def)
  qed
qed

theorem configure_optimizers_unresolved_witness:
  "configure_optimizers demo_namespace (demo_module\<lparr>optimizer := ''Adm''\<rparr>) [0, 1, 2] =
     Inl NameError \<and>
   (\<exists>e. configure_optimizers demo_namespace (demo_module\<lparr>optimizer := ''list''\<rparr>) [0, 1, 2] =
     Inl e)"
proof -
  have 1: "\<forall>ctor. demo_namespace (optimizer (demo_module\<lparr>optimizer := ''Adm''\<rparr>)) = Some ctor \<longrightarrow>
             (\<forall>opt. ctor [0, 1, 2] (lr (demo_module\<lparr>optimizer := ''Adm''\<rparr>)) \<noteq>
                Inr (OptimizerInstance opt))"
    by (simp add: demo_namespace_def)
  have 2: "\<forall>ctor. demo_namespace (optimizer (demo_module\<lparr>optimizer := ''list''\<rparr>)) = Some ctor \<longrightarrow>
             (\<forall>opt. ctor [0, 1, 2] (lr (demo_module\<lparr>optimizer := ''list''\<rparr>)) \<noteq>
                Inr (OptimizerInstance opt))"
    by (simp add: demo_namespace_def)
  have "demo_namespace ''Adm'' = None" by (simp add: demo_namespace_def)
  then show ?thesis
    using configure_optimizers_unresolved[where ns = demo_namespace
          and self = "demo_module\<lparr>optimizer := ''Adm''\<rparr>" and parameters = "[0, 1, 2]", OF 1]
      configure_optimizers_unresolved[where ns = demo_namespace
          and self = "demo_module\<lparr>optimizer := ''list''\<rparr>" and parameters = "[0, 1, 2]", OF 2]
    by simp
qed

section \<open>Properties of the rounding of floats\<close>

lemma pow2_pos: "0 < pow2 k"
  by (simp add: pow2_def)

lemma pow2_nonpos: "q \<le> 0 \<Longrightarrow> x / pow2 q = x * 2 ^ nat (- q)"
  by (cases "q = 0") (simp_all add: pow2_def)

lemma round_half_even_int: "round_half_even (of_int k) = k"
  by (simp add: round_half_even_def)

lemma round_half_even_le:
  assumes "y \<le> of_int N"
  shows "round_half_even y \<le> N"
proof (cases "y = of_int N")
  case True
  then show ?thesis by (simp add: round_half_even_int)
next
  case False
  then have "y < of_int N" using assms by simp
  then have "\<lfloor>y\<rfloor> < N" by (simp add: floor_less_iff)
  then show ?thesis by (auto simp: round_half_even_def Let_def)
qed

lemma round_half_even_nonneg: "0 \<le> y \<Longrightarrow> 0 \<le> round_half_even y"
  by (auto simp: round_half_even_def Let_def)

lemma ilog2_le:
  assumes "0 < v" "v < 2 ^ 53"
  shows "ilog2 v \<le> 52"
proof (cases "1 \<le> v")
  case True
  have "\<lfloor>v\<rfloor> < 2 ^ 53"
    using assms(2) by (simp add: floor_less_iff)
  then have "bitlen \<lfloor>v\<rfloor> \<le> 53"
    by (simp add: bitlen_le_iff_power)
  then show ?thesis using True by (simp add: ilog2_def)
next
  case False
  have "0 \<le> bitlen (\<lceil>1 / v\<rceil> - 1)" by (rule bitlen_nonneg)
  then show ?thesis using False by (simp add: ilog2_def)
qed

text \<open>\<open>ilog2 x\<close> is the exponent of the power of two at or below \<open>x\<close>.\<close>

lemma ilog2_bounds:
  assumes "0 < x"
  shows "pow2 (ilog2 x) \<le> x" and "x < pow2 (ilog2 x + 1)"
proof -
  show "pow2 (ilog2 x) \<le> x"
  proof (cases "1 \<le> x")
    case True
    let ?m = "\<lfloor>x\<rfloor>"
    have m: "0 < ?m" using True by simp
    have b: "1 \<le> bitlen ?m" using m by (simp add: bitlen_alt_def)
    have "(2::int) ^ nat (bitlen ?m - 1) \<le> ?m" using bitlen_bounds[OF m] ..
    then have "real_of_int (2 ^ nat (bitlen ?m - 1)) \<le> of_int ?m" by (rule of_int_le_iff[THEN iffD2])
    also have "\<dots> \<le> x" by simp
    finally show ?thesis using True b by (simp add: ilog2_def pow2_def)
  next
    case False
    let ?m = "\<lceil>1 / x\<rceil> - 1"
    have y: "1 < 1 / x" using False assms by simp
    then have m: "0 < ?m" by (simp add: less_ceiling_iff)
    have b: "1 \<le> bitlen ?m" using m by (simp add: bitlen_alt_def)
    have "?m < 2 ^ nat (bitlen ?m)" using bitlen_bounds[OF m] ..
    then have "\<lceil>1 / x\<rceil> \<le> 2 ^ nat (bitlen ?m)" by simp
    then have "1 / x \<le> 2 ^ nat (bitlen ?m)"
      by (simp add: ceiling_le_iff)
    then have "1 / 2 ^ nat (bitlen ?m) \<le> x"
      using assms by (simp add: field_simps)
    then show ?thesis using False b by (simp add: ilog2_def pow2_def)
  qed
  show "x < pow2 (ilog2 x + 1)"
  proof (cases "1 \<le> x")
    case True
    let ?m = "\<lfloor>x\<rfloor>"
    have m: "0 < ?m" using True by simp
    have b: "1 \<le> bitlen ?m" using m by (simp add: bitlen_alt_def)
    have "?m < 2 ^ nat (bitlen ?m)" using bitlen_bounds[OF m] ..
    then have "x < 2 ^ nat (bitlen ?m)" by (simp add: floor_less_iff)
    then show ?thesis using True b by (simp add: ilog2_def pow2_def)
  next
    case False
    let ?m = "\<lceil>1 / x\<rceil> - 1"
    have y: "1 < 1 / x" using False assms by simp
    then have m: "0 < ?m" by (simp add: less_ceiling_iff)
    have b: "1 \<le> bitlen ?m" using m by (simp add: bitlen_alt_def)
    have "(2::int) ^ nat (bitlen ?m - 1) \<le> ?m" using bitlen_bounds[OF m] ..
    then have "2 ^ nat (bitlen ?m - 1) < \<lceil>1 / x\<rceil>" by simp
    then have lt: "2 ^ nat (bitlen ?m - 1) < 1 / x"
      by (simp add: less_ceiling_iff)
    have "x < 1 / 2 ^ nat (bitlen ?m - 1)"
      using lt assms by (simp add: field_simps)
    moreover have "pow2 (- bitlen ?m + 1) = 1 / 2 ^ nat (bitlen ?m - 1)"
      using b by (cases "bitlen ?m = 1") (simp_all add: pow2_def)
    ultimately show ?thesis using False by (simp add: ilog2_def)
  qed
qed

text \<open>
  Rounding keeps a value between 0 and an integer below \<open>2\<^sup>5\<^sup>3\<close> in that range, and such
  an integer is a double.
\<close>

lemma round_double_bounds:
  assumes "0 \<le> v" "v \<le> real n" "n < 2 ^ 53"
  shows "0 \<le> round_double v" and "round_double v \<le> real n"
proof -
  show "0 \<le> round_double v"
  proof (cases "v = 0")
    case True
    then show ?thesis by (simp add: round_double_def)
  next
    case False
    define q where "q = max (ilog2 \<bar>v\<bar>) (- 1022) - 52"
    have "0 \<le> v / pow2 q" using assms(1) pow2_pos[of q] by simp
    then have "0 \<le> round_half_even (v / pow2 q)" by (rule round_half_even_nonneg)
    then have "0 \<le> real_of_int (round_half_even (v / pow2 q)) * pow2 q"
      using pow2_pos[of q] by simp
    then show ?thesis using False by (simp add: round_double_def q_def Let_def)
  qed
  show "round_double v \<le> real n"
  proof (cases "v = 0")
    case True
    then show ?thesis by (simp add: round_double_def)
  next
    case False
    then have pos: "0 < v" using assms(1) by simp
    define q where "q = max (ilog2 \<bar>v\<bar>) (- 1022) - 52"
    have "real n < 2 ^ 53" using assms(3) by (metis of_nat_less_numeral_power_cancel_iff)
    then have "v < 2 ^ 53" using assms(2) by linarith
    then have "ilog2 v \<le> 52" by (rule ilog2_le[OF pos])
    then have q: "q \<le> 0" using pos by (simp add: q_def)
    define M where "M = (2::int) ^ nat (- q)"
    have d: "x / pow2 q = x * of_int M" for x
      by (simp add: pow2_nonpos[OF q] M_def)
    have "v * of_int M \<le> of_int (int n * M)"
      using assms(2) by (simp add: M_def mult_right_mono)
    then have "round_half_even (v / pow2 q) \<le> int n * M"
      unfolding d by (rule round_half_even_le)
    then have "of_int (round_half_even (v / pow2 q)) \<le> real_of_int (int n * M)"
      by (rule of_int_le_iff[THEN iffD2])
    then have "of_int (round_half_even (v / pow2 q)) * pow2 q \<le> real_of_int (int n * M) * pow2 q"
      using pow2_pos[of q] by (simp add: mult_right_mono)
    also have "real_of_int (int n * M) * pow2 q = real n"
      using d[of "real n * of_int M * pow2 q"] pow2_pos[of q] by (simp add: M_def pow2_nonpos[OF q, symmetric])
    finally show ?thesis
      using False by (simp add: round_double_def q_def Let_def)
  qed
qed

lemma float_of_int_exact:
  assumes "n < 2 ^ 53"
  shows "float_of_int (int n) = real n"
proof (cases "n = 0")
  case True
  then show ?thesis by (simp add: float_of_int_def round_double_def)
next
  case False
  then have pos: "0 < real n" by simp
  define q where "q = max (ilog2 \<bar>real n\<bar>) (- 1022) - 52"
  have "real n < 2 ^ 53" using assms by (metis of_nat_less_numeral_power_cancel_iff)
  then have "ilog2 (real n) \<le> 52" by (rule ilog2_le[OF pos])
  then have q: "q \<le> 0" by (simp add: q_def)
  have "real n / pow2 q = of_int (int n * 2 ^ nat (- q))"
    by (simp add: pow2_nonpos[OF q])
  then have "round_half_even (real n / pow2 q) = int n * 2 ^ nat (- q)"
    by (simp only: round_half_even_int)
  then have "of_int (round_half_even (real n / pow2 q)) * pow2 q = real n / pow2 q * pow2 q"
    by (simp add: pow2_nonpos[OF q])
  also have "\<dots> = real n" using pow2_pos[of q] by simp
  finally show ?thesis
    using False by (simp add: float_of_int_def round_double_def q_def Let_def)
qed


section \<open>Properties of the split\<close>

lemma length_randperm: "is_randperm rp \<Longrightarrow> length (rp n) = n"
  unfolding is_randperm_def by (metis card_atLeastLessThan diff_zero distinct_card)

lemma py_int_floor: "0 \<le> x \<Longrightarrow> py_int x = \<lfloor>x\<rfloor>"
  by (simp add: py_int_def)

lemma float_product_bounds:
  assumes "0 < r" "r < 1" "n < 2 ^ 53"
  shows "0 \<le> float_mul (float_of_int (int n)) r"
    and "float_mul (float_of_int (int n)) r \<le> real n"
proof -
  have v: "0 \<le> real n * r" "real n * r \<le> real n"
    using assms(1,2) by (simp_all add: mult_left_le)
  have e: "float_mul (float_of_int (int n)) r = round_double (real n * r)"
    by (simp add: float_mul_def float_of_int_exact[OF assms(3)])
  show "0 \<le> float_mul (float_of_int (int n)) r"
    unfolding e by (rule round_double_bounds(1)[OF v assms(3)])
  show "float_mul (float_of_int (int n)) r \<le> real n"
    unfolding e by (rule round_double_bounds(2)[OF v assms(3)])
qed

lemma train_length_bounds:
  assumes "0 < r" "r < 1" "n < 2 ^ 53"
  shows "py_int (float_mul (float_of_int (int n)) r) = \<lfloor>float_mul (float_of_int (int n)) r\<rfloor>"
    and "0 \<le> \<lfloor>float_mul (float_of_int (int n)) r\<rfloor>"
    and "\<lfloor>float_mul (float_of_int (int n)) r\<rfloor> \<le> int n"
proof -
  note b = float_product_bounds[OF assms]
  show "py_int (float_mul (float_of_int (int n)) r) = \<lfloor>float_mul (float_of_int (int n)) r\<rfloor>"
    using b(1) by (rule py_int_floor)
  show "0 \<le> \<lfloor>float_mul (float_of_int (int n)) r\<rfloor>" using b(1) by simp
  have "\<lfloor>float_mul (float_of_int (int n)) r\<rfloor> \<le> \<lfloor>real n\<rfloor>" using b(2) by (rule floor_mono)
  then show "\<lfloor>float_mul (float_of_int (int n)) r\<rfloor> \<le> int n" by simp
qed

lemma random_split_two:
  assumes "length perm = n" "0 \<le> a" "a \<le> int n" "length ds = n" "rp n = perm"
  shows "random_split rp ds [a, int n - a] =
           Inr [\<lparr>subset_dataset = ds, subset_indices = take (nat a) perm\<rparr>,
                \<lparr>subset_dataset = ds, subset_indices = drop (nat a) perm\<rparr>]"
  using assms
  by (auto simp: random_split_def accumulate_def py_slice_def py_bound_def Let_def
        min_def max_def)

lemma prepare_data_split:
  assumes "is_randperm rp" "0 < train_ratio self" "train_ratio self < 1"
    and "length (dataset self) < 2 ^ 53"
  shows "prepare_data rp self =
           Inr (self\<lparr>train_dataset :=
                        Some \<lparr>subset_dataset = dataset self,
                              subset_indices =
                                take (nat \<lfloor>float_mul (float_of_int (int (length (dataset self))))
                                             (train_ratio self)\<rfloor>)
                                  (rp (length (dataset self)))\<rparr>,
                     val_dataset :=
                        Some \<lparr>subset_dataset = dataset self,
                              subset_indices =
                                drop (nat \<lfloor>float_mul (float_of_int (int (length (dataset self))))
                                             (train_ratio self)\<rfloor>)
                                  (rp (length (dataset self)))\<rparr>\<rparr>)"
proof -
  let ?n = "length (dataset self)"
  let ?a = "\<lfloor>float_mul (float_of_int (int ?n)) (train_ratio self)\<rfloor>"
  note b = train_length_bounds[OF assms(2,3,4)]
  have "random_split rp (dataset self) [?a, int ?n - ?a] =
           Inr [\<lparr>subset_dataset = dataset self, subset_indices = take (nat ?a) (rp ?n)\<rparr>,
                \<lparr>subset_dataset = dataset self, subset_indices = drop (nat ?a) (rp ?n)\<rparr>]"
    using length_randperm[OF assms(1), of ?n] b(2,3) by (intro random_split_two) auto
  then show ?thesis
    by (simp add: prepare_data_def b(1) Let_def)
qed

lemma is_randperm_upt: "is_randperm (upt 0)"
  by (simp add: is_randperm_def)

text \<open>
  The float literals 0.8, 0.58, 0.7 and 0.25, and the train lengths they give. The product is the
  rounded one: \<open>50 * 0.58\<close> is a double just below 29, and \<open>10 * 0.7\<close> is the double 7
  although the double \<open>0.7\<close> lies below 7/10.
\<close>

lemma double_literals:
  "round_double (4 / 5) = 3602879701896397 / 4503599627370496"
  "round_double (29 / 50) = 5224175567749775 / 9007199254740992"
  "round_double (7 / 10) = 3152519739159347 / 4503599627370496"
  "round_double (1 / 4) = 1 / 4"
  by code_simp+

lemma train_length_examples:
  "py_int (float_mul (float_of_int 100) (round_double (4 / 5))) = 80"
  "py_int (float_mul (float_of_int 50) (round_double (29 / 50))) = 28"
  "py_int (float_mul (float_of_int 10) (round_double (7 / 10))) = 7"
  "py_int (float_mul (float_of_int 2) (round_double (1 / 4))) = 0"
  by code_simp+

lemma exact_product_examples:
  "\<lfloor>50 * (29 / 50 :: real)\<rfloor> = 29"
  "\<lfloor>10 * round_double (7 / 10)\<rfloor> = 6"
  by code_simp+




section \<open>Properties of the data-loading setup\<close>

lemma prepare_data_empty:
  assumes "dataset self = []"
  shows "prepare_data rp self =
           Inr (self\<lparr>train_dataset := Some \<lparr>subset_dataset = [], subset_indices = []\<rparr>,
                     val_dataset := Some \<lparr>subset_dataset = [], subset_indices = []\<rparr>\<rparr>)"
  by (simp add: prepare_data_def assms float_of_int_def float_mul_def round_double_def
        py_int_def random_split_def accumulate_def py_slice_def)

lemma len_DataLoader_zero_iff:
  assumes "0 < loader_batch_size l"
  shows "len_DataLoader l = 0 \<longleftrightarrow> len_Subset (loader_dataset l) = 0"
proof -
  let ?k = "len_Subset (loader_dataset l)" and ?b = "loader_batch_size l"
  have "(?k + ?b - 1) div ?b = 0 \<longleftrightarrow> ?k + ?b - 1 < ?b"
    using assms by (simp add: div_eq_0_iff)
  also have "\<dots> \<longleftrightarrow> ?k = 0" using assms by linarith
  finally show ?thesis by (simp add: len_DataLoader_def)
qed

lemma checked_loader:
  "(case new_DataLoader s bs of
      Inl e \<Rightarrow> Inl e
    | Inr l \<Rightarrow> (case has_len l of Inl e \<Rightarrow> Inl e | Inr _ \<Rightarrow> Inr l)) =
   (if bs \<le> 0 \<or> len_Subset s = 0 then Inl ValueError
    else Inr \<lparr>loader_dataset = s, loader_batch_size = nat bs\<rparr>)"
proof (cases "bs \<le> 0")
  case True
  then show ?thesis by (simp add: new_DataLoader_def)
next
  case False
  let ?l = "\<lparr>loader_dataset = s, loader_batch_size = nat bs\<rparr>"
  have "0 < loader_batch_size ?l" using False by simp
  then have "len_DataLoader ?l = 0 \<longleftrightarrow> len_Subset s = 0"
    using len_DataLoader_zero_iff[of ?l] by simp
  then show ?thesis using False by (simp add: new_DataLoader_def has_len_def)
qed

lemma data_setup_cases:
  assumes "prepare_data rp self = Inr self'"
    and "train_dataset self' = Some tr" and "val_dataset self' = Some va"
  shows "data_setup rp self =
           (if batch_size self' \<le> 0 \<or> len_Subset tr = 0 \<or> len_Subset va = 0
            then Inl ValueError
            else Inr (self',
                      \<lparr>loader_dataset = tr, loader_batch_size = nat (batch_size self')\<rparr>,
                      \<lparr>loader_dataset = va, loader_batch_size = nat (batch_size self')\<rparr>))"
  by (simp add: data_setup_def assms reset_train_dataloader_def reset_val_dataloader_def
        train_dataloader_def val_dataloader_def checked_loader)

text \<open>
  Claim C9. When the dataset is empty, or the split that \<^verbatim>\<open>prepare_data\<close> makes leaves
  the training or the validation subset without an example, the data-loading setup
  fails with a ValueError: the loader over the empty subset has length zero and is
  rejected before a step is run on it.
\<close>

theorem data_setup_rejects_empty_subset:
  assumes "dataset self = [] \<or>
           (\<exists>self' tr va.
              prepare_data rp self = Inr self' \<and>
              train_dataset self' = Some tr \<and> val_dataset self' = Some va \<and>
              (len_Subset tr = 0 \<or> len_Subset va = 0))"
  shows "data_setup rp self = Inl ValueError"
  using assms
proof
  assume "dataset self = []"
  then have "prepare_data rp self =
           Inr (self\<lparr>train_dataset := Some \<lparr>subset_dataset = [], subset_indices = []\<rparr>,
                     val_dataset := Some \<lparr>subset_dataset = [], subset_indices = []\<rparr>\<rparr>)"
    by (rule prepare_data_empty)
  then show ?thesis
    by (simp add: data_setup_cases[where tr = "\<lparr>subset_dataset = [], subset_indices = []\<rparr>"
          and va = "\<lparr>subset_dataset = [], subset_indices = []\<rparr>"] len_Subset_def)
next
  assume "\<exists>self' tr va.
              prepare_data rp self = Inr self' \<and>
              train_dataset self' = Some tr \<and> val_dataset self' = Some va \<and>
              (len_Subset tr = 0 \<or> len_Subset va = 0)"
  then obtain self' tr va where
    p: "prepare_data rp self = Inr self'" "train_dataset self' = Some tr"
      "val_dataset self' = Some va"
    and z: "len_Subset tr = 0 \<or> len_Subset va = 0"
    by blast
  show ?thesis
    using z by (auto simp: data_setup_cases[OF p])
qed

lemma prepare_data_two_quarter:
  "prepare_data (upt 0)
     \<lparr>dataset = [(), ()], model = demo_model, train_ratio = round_double (1 / 4),
      batch_size = 4, optimizer = ''Adam'', lr = 1 / 1000,
      train_dataset = None, val_dataset = None\<rparr> =
   Inr \<lparr>dataset = [(), ()], model = demo_model, train_ratio = round_double (1 / 4),
        batch_size = 4, optimizer = ''Adam'', lr = 1 / 1000,
        train_dataset = Some \<lparr>subset_dataset = [(), ()], subset_indices = []\<rparr>,
        val_dataset = Some \<lparr>subset_dataset = [(), ()], subset_indices = [0, 1]\<rparr>\<rparr>"
proof -
  let ?self = "\<lparr>dataset = [(), ()], model = demo_model, train_ratio = round_double (1 / 4),
      batch_size = 4, optimizer = ''Adam'', lr = 1 / 1000,
      train_dataset = None, val_dataset = None\<rparr> :: unit DualIntentEntityTransformer"
  have h: "0 < train_ratio ?self" "train_ratio ?self < 1" "length (dataset ?self) < 2 ^ 53"
    by (simp_all add: double_literals)
  have f: "\<lfloor>float_mul (float_of_int 2) (1 / 4)\<rfloor> = 0" by code_simp
  have u: "[0..<2] = [0, 1]" by code_simp
  show ?thesis
    using prepare_data_split[OF is_randperm_upt h] by (simp add: double_literals f u)
qed

theorem data_setup_rejects_empty_subset_witness:
  "data_setup (upt 0)
     \<lparr>dataset = ([] :: unit list), model = demo_model, train_ratio = round_double (4 / 5),
      batch_size = 4, optimizer = ''Adam'', lr = 1 / 1000,
      train_dataset = None, val_dataset = None\<rparr> = Inl ValueError \<and>
   data_setup (upt 0)
     \<lparr>dataset = [(), ()], model = demo_model, train_ratio = round_double (1 / 4),
      batch_size = 4, optimizer = ''Adam'', lr = 1 / 1000,
      train_dataset = None, val_dataset = None\<rparr> = Inl ValueError"
proof -
  let ?empty = "\<lparr>dataset = ([] :: unit list), model = demo_model,
      train_ratio = round_double (4 / 5),
      batch_size = 4, optimizer = ''Adam'', lr = 1 / 1000,
      train_dataset = None, val_dataset = None\<rparr>"
  let ?two = "\<lparr>dataset = [(), ()], model = demo_model, train_ratio = round_double (1 / 4),
      batch_size = 4, optimizer = ''Adam'', lr = 1 / 1000,
      train_dataset = None, val_dataset = None\<rparr> :: unit DualIntentEntityTransformer"
  have 1: "dataset ?empty = [] \<or>
           (\<exists>self' tr va.
              prepare_data (upt 0) ?empty = Inr self' \<and>
              train_dataset self' = Some tr \<and> val_dataset self' = Some va \<and>
              (len_Subset tr = 0 \<or> len_Subset va = 0))"
    by simp
  have 2: "dataset ?two = [] \<or>
           (\<exists>self' tr va.
              prepare_data (upt 0) ?two = Inr self' \<and>
              train_dataset self' = Some tr \<and> val_dataset self' = Some va \<and>
              (len_Subset tr = 0 \<or> len_Subset va = 0))"
    by (simp add: prepare_data_two_quarter len_Subset_def)
  show ?thesis
    using data_setup_rejects_empty_subset[OF 1] data_setup_rejects_empty_subset[OF 2]
    by simp
qed

text \<open>
  With a positive batch size and an example in each subset the setup succeeds; for the
  100 examples at ratio 0.8 and batches of 4, the loaders have 20 and 5 batches.
\<close>

lemma data_setup_scenario:
  "\<exists>self' tloader vloader.
     data_setup (upt 0)
       \<lparr>dataset = replicate 100 (), model = demo_model, train_ratio = round_double (4 / 5),
        batch_size = 4, optimizer = ''Adam'', lr = 1 / 1000,
        train_dataset = None, val_dataset = None\<rparr> = Inr (self', tloader, vloader) \<and>
     len_DataLoader tloader = 20 \<and> len_DataLoader vloader = 5"
proof -
  let ?self = "\<lparr>dataset = replicate 100 (), model = demo_model,
        train_ratio = round_double (4 / 5),
        batch_size = 4, optimizer = ''Adam'', lr = 1 / 1000,
        train_dataset = None, val_dataset = None\<rparr> :: unit DualIntentEntityTransformer"
  have h: "0 < train_ratio ?self" "train_ratio ?self < 1" "length (dataset ?self) < 2 ^ 53"
    by (simp_all add: double_literals)
  have f: "\<lfloor>float_mul (float_of_int 100) (round_double (4 / 5))\<rfloor> = 80"
    by code_simp
  obtain self' tr va where
    p: "prepare_data (upt 0) ?self = Inr self'"
      "train_dataset self' = Some tr" "val_dataset self' = Some va"
    and k: "int (len_Subset tr) =
       \<lfloor>float_mul (float_of_int (int (length (dataset ?self)))) (train_ratio ?self)\<rfloor>"
    "len_Subset tr + len_Subset va = length (dataset ?self)"
    using prepare_data_split[OF is_randperm_upt h]
    by (simp add: len_Subset_def f)
  have tr: "len_Subset tr = 80" using k(1) by (simp add: f)
  then have va: "len_Subset va = 20" using k(2) by simp
  have bs: "batch_size self' = 4"
    using p(1) by (simp add: prepare_data_split[OF is_randperm_upt h]) auto
  show ?thesis
    by (simp add: data_setup_cases[OF p] tr va bs len_DataLoader_def)
qed

section \<open>Properties of the validation epoch\<close>

lemma traverse_Inr_D:
  "traverse f xs = Inr ys \<Longrightarrow> list_all2 (\<lambda>x y. f x = Inr y) xs ys"
  by (induction xs arbitrary: ys) (auto split: sum.splits)

lemma validation_step_output:
  assumes "validation_step ce acc self b i = Inr out"
  shows "\<exists>ia ea il el.
           out = [''val_intent_acc'' \<mapsto> TupleValue ia, ''val_entity_acc'' \<mapsto> TupleValue ea,
                  ''val_intent_loss'' \<mapsto> TensorValue il, ''val_entity_loss'' \<mapsto> TensorValue el,
                  ''val_loss'' \<mapsto> TensorValue (il + el)]"
  using assms by (auto simp: validation_step_def split: prod.splits sum.splits)

lemma validation_step_keys:
  assumes "validation_step ce acc self b i = Inr out"
  shows "\<exists>ia ea il el.
           out ''val_intent_acc'' = Some (TupleValue ia) \<and>
           out ''val_entity_acc'' = Some (TupleValue ea) \<and>
           out ''val_intent_loss'' = Some (TensorValue il) \<and>
           out ''val_entity_loss'' = Some (TensorValue el) \<and>
           out ''val_loss'' = Some (TensorValue (il + el))"
proof -
  obtain ia ea il el where
    "out = [''val_intent_acc'' \<mapsto> TupleValue ia, ''val_entity_acc'' \<mapsto> TupleValue ea,
            ''val_intent_loss'' \<mapsto> TensorValue il, ''val_entity_loss'' \<mapsto> TensorValue el,
            ''val_loss'' \<mapsto> TensorValue (il + el)]"
    using validation_step_output[OF assms] by blast
  then show ?thesis by simp
qed

lemma validation_outputs_keys:
  assumes "validation_outputs ce acc self batches = Inr outputs" and "out \<in> set outputs"
  shows "\<exists>ia ea il el.
           out ''val_intent_acc'' = Some (TupleValue ia) \<and>
           out ''val_entity_acc'' = Some (TupleValue ea) \<and>
           out ''val_intent_loss'' = Some (TensorValue il) \<and>
           out ''val_entity_loss'' = Some (TensorValue el) \<and>
           out ''val_loss'' = Some (TensorValue (il + el))"
proof -
  have all2: "list_all2 (\<lambda>p out. validation_step ce acc self (snd p) (fst p) = Inr out)
                (enumerate 0 batches) outputs"
    using traverse_Inr_D[OF assms(1)[unfolded validation_outputs_def]]
    by (simp add: case_prod_unfold)
  obtain k where k: "k < length outputs" "out = outputs ! k"
    using assms(2) unfolding in_set_conv_nth by blast
  have "validation_step ce acc self (snd (enumerate 0 batches ! k))
          (fst (enumerate 0 batches ! k)) = Inr (outputs ! k)"
    using list_all2_nthD2[OF all2 k(1)] .
  then show ?thesis unfolding k(2) by (rule validation_step_keys)
qed

lemma validation_outputs_length:
  assumes "validation_outputs ce acc self batches = Inr outputs"
  shows "length outputs = length batches"
proof -
  have "list_all2 (\<lambda>p out. validation_step ce acc self (snd p) (fst p) = Inr out)
                (enumerate 0 batches) outputs"
    using traverse_Inr_D[OF assms(1)[unfolded validation_outputs_def]]
    by (simp add: case_prod_unfold)
  then have "length (enumerate 0 batches) = length outputs" by (rule list_all2_lengthD)
  then show ?thesis by simp
qed

lemma mean_of_tensors:
  assumes "outputs \<noteq> []" "\<And>out. out \<in> set outputs \<Longrightarrow> out key = Some (TensorValue (g out))"
  shows "mean_of key outputs = Inr (sum_list (map g outputs) / real (length outputs))"
proof -
  have 1: "traverse (\<lambda>x. getitem x key) outputs = Inr (map (\<lambda>out. TensorValue (g out)) outputs)"
    by (rule traverse_Inr) (simp add: getitem_def assms(2))
  have 2: "traverse as_tensor (map (\<lambda>out. TensorValue (g out)) outputs) = Inr (map g outputs)"
    by (induction outputs) (simp_all add: as_tensor_def)
  show ?thesis using assms(1) by (simp add: mean_of_def stack_mean_def 1 2)
qed

lemma mean_of_tuples:
  assumes "outputs \<noteq> []" "\<And>out. out \<in> set outputs \<Longrightarrow> out key = Some (TupleValue (g out))"
  shows "mean_of key outputs = Inl TypeError"
proof -
  have 1: "traverse (\<lambda>x. getitem x key) outputs = Inr (map (\<lambda>out. TupleValue (g out)) outputs)"
    by (rule traverse_Inr) (simp add: getitem_def assms(2))
  obtain out rest where "outputs = out # rest" using assms(1) by (cases outputs) auto
  then have 2: "traverse as_tensor (map (\<lambda>out. TupleValue (g out)) outputs) = Inl TypeError"
    by (simp add: as_tensor_def)
  show ?thesis by (simp add: mean_of_def stack_mean_def 1 2)
qed

text \<open>
  On the outputs of the validation steps over a non-empty list of batches, the first
  line of \<^verbatim>\<open>validation_epoch_end\<close> does compute the mean of the per-batch sums of the two
  losses, and the second line raises: the accuracies are tuples, not tensors.
\<close>

lemma val_loss_mean:
  assumes "validation_outputs ce acc self batches = Inr outputs" and "batches \<noteq> []"
  shows "\<exists>losses.
           length losses = length batches \<and>
           map (\<lambda>out. (out ''val_intent_loss'', out ''val_entity_loss'', out ''val_loss''))
               outputs =
             map (\<lambda>(il, el). (Some (TensorValue il), Some (TensorValue el),
                               Some (TensorValue (il + el)))) losses \<and>
           mean_of ''val_loss'' outputs =
             Inr (sum_list (map (\<lambda>(il, el). il + el) losses) / real (length batches))"
proof -
  define il where
    "il = (\<lambda>out :: string \<rightharpoonup> entry. case out ''val_intent_loss'' of Some (TensorValue x) \<Rightarrow> x | _ \<Rightarrow> 0)"
  define el where
    "el = (\<lambda>out :: string \<rightharpoonup> entry. case out ''val_entity_loss'' of Some (TensorValue x) \<Rightarrow> x | _ \<Rightarrow> 0)"
  have len: "length outputs = length batches"
    by (rule validation_outputs_length[OF assms(1)])
  then have ne: "outputs \<noteq> []" using assms(2) by auto
  have keys: "out ''val_intent_loss'' = Some (TensorValue (il out))"
    "out ''val_entity_loss'' = Some (TensorValue (el out))"
    "out ''val_loss'' = Some (TensorValue (il out + el out))"
    if mem: "out \<in> set outputs" for out
  proof -
    obtain a b where k: "out ''val_intent_loss'' = Some (TensorValue a)"
      "out ''val_entity_loss'' = Some (TensorValue b)"
      "out ''val_loss'' = Some (TensorValue (a + b))"
      using validation_outputs_keys[OF assms(1) mem] by blast
    show "out ''val_intent_loss'' = Some (TensorValue (il out))"
      "out ''val_entity_loss'' = Some (TensorValue (el out))"
      "out ''val_loss'' = Some (TensorValue (il out + el out))"
      by (simp_all add: il_def el_def k)
  qed
  define losses where "losses = map (\<lambda>out. (il out, el out)) outputs"
  have 1: "length losses = length batches" by (simp add: losses_def len)
  have 2: "map (\<lambda>out. (out ''val_intent_loss'', out ''val_entity_loss'', out ''val_loss''))
               outputs =
             map (\<lambda>(il, el). (Some (TensorValue il), Some (TensorValue el),
                               Some (TensorValue (il + el)))) losses"
    unfolding losses_def by (simp add: keys)
  have m1: "mean_of ''val_loss'' outputs =
      Inr (sum_list (map (\<lambda>out. il out + el out) outputs) / real (length outputs))"
    by (rule mean_of_tensors[OF ne]) (rule keys)
  have s: "map (\<lambda>(il, el). il + el) losses = map (\<lambda>out. il out + el out) outputs"
    by (simp add: losses_def)
  have 3: "mean_of ''val_loss'' outputs =
             Inr (sum_list (map (\<lambda>(il, el). il + el) losses) / real (length batches))"
    unfolding s m1 len ..
  show ?thesis using 1 2 3 by blast
qed

lemma validation_epoch_end_TypeError:
  assumes "validation_outputs ce acc self batches = Inr outputs" and "batches \<noteq> []"
  shows "validation_epoch_end outputs = Inl TypeError"
proof -
  define ia where
    "ia = (\<lambda>out :: string \<rightharpoonup> entry.
             case out ''val_intent_acc'' of Some (TupleValue t) \<Rightarrow> t | _ \<Rightarrow> Accuracy 0 0 0)"
  have "length outputs = length batches"
    by (rule validation_outputs_length[OF assms(1)])
  then have ne: "outputs \<noteq> []" using assms(2) by auto
  obtain x where "mean_of ''val_loss'' outputs = Inr x"
    using val_loss_mean[OF assms] by blast
  moreover have "mean_of ''val_intent_acc'' outputs = Inl TypeError"
  proof (rule mean_of_tuples[OF ne])
    fix out assume "out \<in> set outputs"
    then obtain t where "out ''val_intent_acc'' = Some (TupleValue t)"
      using validation_outputs_keys[OF assms(1)] by blast
    then show "out ''val_intent_acc'' = Some (TupleValue (ia out))"
      by (simp add: ia_def)
  qed
  ultimately show ?thesis by (simp add: validation_epoch_end_def)
qed

lemma validation_step_demo:
  "validation_step demo_cross_entropy demo_get_accuracy demo_module demo_batch i =
     Inr demo_step_output"
  by (simp add: validation_step_def demo_batch_def forward_demo_module demo_get_accuracy_def
        loss_fn_def demo_cross_entropy_def demo_step_output_def)

lemma validation_outputs_demo:
  "validation_outputs demo_cross_entropy demo_get_accuracy demo_module [demo_batch, demo_batch] =
     Inr [demo_step_output, demo_step_output]"
  by (simp add: validation_outputs_def validation_step_demo)

lemma mean_of_demo_step:
  "mean_of ''val_loss'' [demo_step_output, demo_step_output] = Inr 3"
  "mean_of ''val_intent_acc'' [demo_step_output, demo_step_output] = Inl TypeError"
  "mean_of ''val_intent_loss'' [demo_step_output, demo_step_output] = Inr 1"
  "mean_of ''val_entity_loss'' [demo_step_output, demo_step_output] = Inr 2"
  by (simp_all add: mean_of_def demo_step_output_def getitem_def stack_mean_def as_tensor_def)

text \<open>
  Claim C4 is not met by the code. Each validation step stores under \<open>val_loss\<close> the sum
  of its two losses, and \<^verbatim>\<open>validation_epoch_end\<close> does average these sums; but it then
  stacks the accuracies, which are the tuples that \<^verbatim>\<open>get_accuracy\<close> returns, and raises
  TypeError: no epoch-level \<open>val_loss\<close> is returned or logged. Evaluated on the outputs of
  the validation step over two batches:
\<close>

theorem validation_epoch_end_raises:
  "validation_outputs demo_cross_entropy demo_get_accuracy demo_module [demo_batch, demo_batch] =
     Inr [demo_step_output, demo_step_output] \<and>
   mean_of ''val_loss'' [demo_step_output, demo_step_output] = Inr 3 \<and>
   validation_epoch_end [demo_step_output, demo_step_output] = Inl TypeError"
  by (simp add: validation_outputs_demo mean_of_demo_step validation_epoch_end_def)

lemma mean_of_demo:
  "mean_of ''val_loss'' demo_outputs = Inr 5"
  "mean_of ''val_intent_acc'' demo_outputs = Inr (3 / 4)"
  "mean_of ''val_entity_acc'' demo_outputs = Inr (1 / 2)"
  "mean_of ''val_intent_loss'' demo_outputs = Inr 2"
  "mean_of ''val_entity_loss'' demo_outputs = Inr 3"
  by (simp_all add: mean_of_def demo_outputs_def getitem_def stack_mean_def as_tensor_def)

text \<open>
  Claim C1 is not met by the code. At the end of a validation epoch the logged metrics are
  the \<^verbatim>\<open>"log"\<close> entry of \<^verbatim>\<open>validation_epoch_end\<close>: \<open>val_loss\<close>, \<open>intent_acc\<close> and
  \<open>entity_acc\<close>, with neither \<open>val_intent_loss\<close> nor \<open>val_entity_loss\<close>. The method that
  averages the two task losses is defined under the name \<^verbatim>\<open>valdition_epoch_end\<close>, which
  is not the hook's name; called by hand on the same outputs it yields their means.
  Evaluated on two outputs that hold a scalar tensor under every key, and on the outputs
  of the validation step over two batches, for which the hook raises and nothing is
  logged at all:
\<close>

theorem task_losses_not_logged:
  "logged_metrics demo_outputs =
     Inr [''val_loss'' \<mapsto> 5, ''intent_acc'' \<mapsto> 3 / 4, ''entity_acc'' \<mapsto> 1 / 2] \<and>
   valdition_epoch_end demo_outputs =
     Inr \<lparr>scalars = [''val_intent_loss'' \<mapsto> 2, ''val_entity_loss'' \<mapsto> 3],
          logs = [''val_intent_loss'' \<mapsto> 2, ''val_entity_loss'' \<mapsto> 3]\<rparr> \<and>
   logged_metrics [demo_step_output, demo_step_output] = Inl TypeError \<and>
   valdition_epoch_end [demo_step_output, demo_step_output] =
     Inr \<lparr>scalars = [''val_intent_loss'' \<mapsto> 1, ''val_entity_loss'' \<mapsto> 2],
          logs = [''val_intent_loss'' \<mapsto> 1, ''val_entity_loss'' \<mapsto> 2]\<rparr>"
  by (simp add: logged_metrics_def epoch_end_methods_def validation_epoch_end_def
        valdition_epoch_end_def mean_of_demo mean_of_demo_step)

text \<open>Whatever the outputs, the logged keys are those three.\<close>

lemma logged_metrics_keys:
  "logged_metrics outputs = Inr m \<Longrightarrow> dom m = {''val_loss'', ''intent_acc'', ''entity_acc''}"
  by (auto simp: logged_metrics_def epoch_end_methods_def validation_epoch_end_def
        split: sum.splits if_splits)

end
